theory Spec2Isabelle
  imports Complex_Main "HOL-Library.Product_Lexorder" "HOL-Library.Sublist"
begin

section \<open>Dataframe primitives\<close>

text \<open>
  The notebook \<^verbatim>\<open>02_raw_data_walkthrough.ipynb\<close> is a linear pipeline of pandas
  operations. A dataframe is modelled as the list of its rows, a row as a record of its
  columns. A float64 cell is a \<open>real option\<close>: \<open>None\<close> is NaN (missing), \<open>Some v\<close> a
  number; arithmetic is exact, rounding of the machine floats is not modelled.
  A timestamp is the triple (year, month, day), ordered lexicographically.
\<close>

type_synonym float = "real option"
type_synonym date = "int \<times> int \<times> int"

definition dt_year :: "date \<Rightarrow> int" where
  "dt_year d = fst d"

definition dt_month :: "date \<Rightarrow> int" where
  "dt_month d = fst (snd d)"

text \<open>
  Day number of a civil date (days since 1970-01-01), used only for the distance between
  two timestamps in the nearest-date match.
\<close>

definition days_from_civil :: "date \<Rightarrow> int" where
  "days_from_civil dt =
     (case dt of (y0, m, d) \<Rightarrow>
        let y = (if m \<le> 2 then y0 - 1 else y0);
            era = y div 400;
            yoe = y - era * 400;
            doy = (153 * (if 2 < m then m - 3 else m + 9) + 2) div 5 + d - 1;
            doe = yoe * 365 + yoe div 4 - yoe div 100 + doy
        in era * 146097 + doe - 719468)"

definition isnull :: "'a option \<Rightarrow> bool" where
  "isnull x = (x = None)"

definition fillna :: "'a \<Rightarrow> 'a option \<Rightarrow> 'a option" where
  "fillna v x = (case x of None \<Rightarrow> Some v | Some y \<Rightarrow> Some y)"

text \<open>The non-missing cells of a column, in order: every reduction below skips NaN.\<close>

fun dropna :: "'a option list \<Rightarrow> 'a list" where
  "dropna [] = []"
| "dropna (None # xs) = dropna xs"
| "dropna (Some v # xs) = v # dropna xs"

text \<open>\<^verbatim>\<open>.mean()\<close>: mean of the non-missing cells, NaN when there is none.\<close>

definition mean :: "float list \<Rightarrow> float" where
  "mean xs = (let vs = dropna xs in
              if vs = [] then None else Some (sum_list vs / real (length vs)))"

text \<open>\<^verbatim>\<open>.sum()\<close>: sum of the non-missing cells, 0 when there is none.\<close>

definition sum_skipna :: "float list \<Rightarrow> float" where
  "sum_skipna xs = Some (sum_list (dropna xs))"

text \<open>
  \<^verbatim>\<open>GroupBy.last()\<close> works column by column: the last non-missing cell of the column
  within the group, NaN when the column is all missing there.
\<close>

definition last_skipna :: "'a option list \<Rightarrow> 'a option" where
  "last_skipna xs = (case dropna xs of [] \<Rightarrow> None | v # vs \<Rightarrow> Some (last (v # vs)))"

text \<open>Elementwise float arithmetic: NaN propagates.\<close>

definition fadd :: "float \<Rightarrow> float \<Rightarrow> float" where
  "fadd x y = (case (x, y) of (Some a, Some b) \<Rightarrow> Some (a + b) | _ \<Rightarrow> None)"

definition fsub :: "float \<Rightarrow> float \<Rightarrow> float" where
  "fsub x y = (case (x, y) of (Some a, Some b) \<Rightarrow> Some (a - b) | _ \<Rightarrow> None)"

definition fmul :: "float \<Rightarrow> float \<Rightarrow> float" where
  "fmul x y = (case (x, y) of (Some a, Some b) \<Rightarrow> Some (a * b) | _ \<Rightarrow> None)"

text \<open>
  Division. numpy does not raise on a zero divisor: it warns and yields an infinity or
  NaN. The model keeps the event apart from the value: \<open>fdiv\<close> returns
  \<open>Inl DivideByZero\<close> exactly when the divisor is zero, \<open>then_div\<close> chains a second
  division, and \<open>cell\<close> gives the float stored in the column. No stored ratio is read
  except by two-sided bound tests, which infinities and NaN both fail, so \<open>cell\<close> stores
  \<open>None\<close> for a computation that divided by zero.
\<close>

datatype np_warning = DivideByZero

definition fdiv :: "float \<Rightarrow> float \<Rightarrow> np_warning + float" where
  "fdiv x y =
     (case y of
        None \<Rightarrow> Inr None
      | Some b \<Rightarrow>
          if b = 0 then Inl DivideByZero
          else (case x of None \<Rightarrow> Inr None | Some a \<Rightarrow> Inr (Some (a / b))))"

definition then_div :: "np_warning + float \<Rightarrow> float \<Rightarrow> np_warning + float" where
  "then_div q y = (case q of Inl w \<Rightarrow> Inl w | Inr x \<Rightarrow> fdiv x y)"

definition cell :: "np_warning + float \<Rightarrow> float" where
  "cell q = (case q of Inl w \<Rightarrow> None | Inr x \<Rightarrow> x)"

text \<open>Comparisons: any comparison with NaN is false.\<close>

definition fgt :: "float \<Rightarrow> real \<Rightarrow> bool" where
  "fgt x c = (case x of None \<Rightarrow> False | Some v \<Rightarrow> c < v)"

definition flt :: "float \<Rightarrow> real \<Rightarrow> bool" where
  "flt x c = (case x of None \<Rightarrow> False | Some v \<Rightarrow> v < c)"

text \<open>\<^verbatim>\<open>Series.between(lo, hi)\<close>: both bounds inclusive.\<close>

definition between :: "float \<Rightarrow> real \<Rightarrow> real \<Rightarrow> bool" where
  "between x lo hi = (case x of None \<Rightarrow> False | Some v \<Rightarrow> lo \<le> v \<and> v \<le> hi)"

text \<open>
  \<^verbatim>\<open>groupby(keys)\<close>: one group per distinct key, the groups in ascending key order, the
  rows of a group in their order in the frame.
\<close>

definition group_keys :: "('r \<Rightarrow> 'k::linorder) \<Rightarrow> 'r list \<Rightarrow> 'k list" where
  "group_keys key rows = sort (remdups (map key rows))"

definition groupby :: "('r \<Rightarrow> 'k::linorder) \<Rightarrow> 'r list \<Rightarrow> ('k \<times> 'r list) list" where
  "groupby key rows = map (\<lambda>k. (k, filter (\<lambda>r. key r = k) rows)) (group_keys key rows)"

text \<open>
  Grouped \<^verbatim>\<open>cumprod()\<close>: one pass over the rows in frame order with a running product
  per group label, starting at 1; a NaN cell yields NaN and leaves the product alone.
\<close>

fun group_cumprod :: "('k \<Rightarrow> real) \<Rightarrow> ('k \<times> float) list \<Rightarrow> float list" where
  "group_cumprod accum [] = []"
| "group_cumprod accum ((lab, None) # rest) = None # group_cumprod accum rest"
| "group_cumprod accum ((lab, Some v) # rest) =
     Some (accum lab * v) # group_cumprod (accum(lab := accum lab * v)) rest"

section \<open>CRSP fund returns and year-end TNA\<close>

text \<open>
  The four input tables. \<open>crsp_row\<close>: one monthly observation of a share class
  (\<^verbatim>\<open>crsp_fundno\<close>, \<^verbatim>\<open>caldt\<close>, \<^verbatim>\<open>mret\<close>, \<^verbatim>\<open>mtna\<close>). \<open>mflink1_row\<close>: the static
  link from a share class to a fund-level id \<^verbatim>\<open>wficn\<close>, which may be missing.
\<close>

record crsp_row =
  crsp_fundno :: int
  caldt :: date
  mret :: float
  mtna :: float

record mflink1_row =
  l1_crsp_fundno :: int
  l1_wficn :: "int option"

text \<open>
  \<^verbatim>\<open>df_crsp.merge(df_mflink1, how="inner", on="crsp_fundno")\<close>: every pair of a left
  and a right row with the same key, in left order, then right order.
\<close>

definition merge_mflink1 :: "crsp_row list \<Rightarrow> mflink1_row list \<Rightarrow> (crsp_row \<times> int option) list" where
  "merge_mflink1 crsp mflink1 =
     concat (map (\<lambda>r. map (\<lambda>l. (r, l1_wficn l))
                          (filter (\<lambda>l. l1_crsp_fundno l = crsp_fundno r) mflink1)) crsp)"

text \<open>The frame \<^verbatim>\<open>df_crsp\<close> after the preparation cell.\<close>

record crsp_df =
  c_crsp_fundno :: int
  c_caldt :: date
  c_mret :: float
  c_mtna :: float
  c_wficn :: int
  c_year :: int
  c_month :: int

text \<open>
  \<^verbatim>\<open>sort_values(["caldt", "wficn"])\<close> puts a missing \<^verbatim>\<open>wficn\<close> after the present ones
  of the same date.
\<close>

definition nan_last :: "int option \<Rightarrow> int \<times> int" where
  "nan_last w = (case w of None \<Rightarrow> (1, 0) | Some n \<Rightarrow> (0, n))"

text \<open>
  The preparation cell: sort, add \<^verbatim>\<open>year\<close> and \<^verbatim>\<open>month\<close>, keep the rows whose
  \<^verbatim>\<open>wficn\<close> is not null (and cast it to int), replace a missing \<^verbatim>\<open>mret\<close> by 0.
\<close>

definition prepare_row :: "crsp_row \<times> int option \<Rightarrow> crsp_df list" where
  "prepare_row p =
     (case p of (r, w) \<Rightarrow>
        (case w of
           None \<Rightarrow> []
         | Some n \<Rightarrow>
             [\<lparr>c_crsp_fundno = crsp_fundno r, c_caldt = caldt r,
               c_mret = fillna 0 (mret r), c_mtna = mtna r, c_wficn = n,
               c_year = dt_year (caldt r), c_month = dt_month (caldt r)\<rparr>]))"

definition df_crsp :: "crsp_row list \<Rightarrow> mflink1_row list \<Rightarrow> crsp_df list" where
  "df_crsp crsp mflink1 =
     concat (map prepare_row
       (sort_key (\<lambda>p. (caldt (fst p), nan_last (snd p))) (merge_mflink1 crsp mflink1)))"

text \<open>
  \<^verbatim>\<open>groupby(["wficn", "year", "month"])["mret"].mean().reset_index()\<close>: the simple mean
  of the month's returns over the rows (share classes) of the fund.
\<close>

record ret_monthly =
  m_wficn :: int
  m_year :: int
  m_month :: int
  m_mret :: float

definition df_ret_monthly :: "crsp_df list \<Rightarrow> ret_monthly list" where
  "df_ret_monthly df =
     map (\<lambda>(k, g). case k of (w, y, m) \<Rightarrow>
            \<lparr>m_wficn = w, m_year = y, m_month = m, m_mret = mean (map c_mret g)\<rparr>)
         (groupby (\<lambda>r. (c_wficn r, c_year r, c_month r)) df)"

text \<open>
  \<^verbatim>\<open>mult = 1 + mret\<close>, then \<^verbatim>\<open>cumret\<close>: the frame sorted by (year, month), the running
  product of \<^verbatim>\<open>mult\<close> within each (wficn, year), assigned back to the rows by index label.
\<close>

record ret_row =
  r_wficn :: int
  r_year :: int
  r_month :: int
  r_mret :: float
  r_mult :: float
  r_cumret :: float

definition mult_of :: "ret_monthly \<Rightarrow> float" where
  "mult_of r = fadd (Some 1) (m_mret r)"

definition cumret_by_index :: "ret_monthly list \<Rightarrow> (nat \<times> float) list" where
  "cumret_by_index df =
     (let srt = sort_key (\<lambda>p. (m_year (snd p), m_month (snd p))) (zip [0..<length df] df)
      in zip (map fst srt)
             (group_cumprod (\<lambda>_. 1)
                (map (\<lambda>p. ((m_wficn (snd p), m_year (snd p)), mult_of (snd p))) srt)))"

definition df_ret_cum :: "ret_monthly list \<Rightarrow> ret_row list" where
  "df_ret_cum df =
     map (\<lambda>p. case p of (i, r) \<Rightarrow>
            \<lparr>r_wficn = m_wficn r, r_year = m_year r, r_month = m_month r, r_mret = m_mret r,
             r_mult = mult_of r,
             r_cumret = (case map_of (cumret_by_index df) i of None \<Rightarrow> None | Some c \<Rightarrow> c)\<rparr>)
         (zip [0..<length df] df)"

text \<open>
  \<^verbatim>\<open>df_ret.query("month==12")\<close>, then \<^verbatim>\<open>yret = cumret - 1\<close>. The columns
  \<^verbatim>\<open>mret\<close> and \<^verbatim>\<open>mult\<close> stay in the frame but are not read again; the record leaves
  them out.
\<close>

record ret_year =
  y_wficn :: int
  y_year :: int
  y_month :: int
  y_cumret :: float
  y_yret :: float

definition df_ret :: "crsp_df list \<Rightarrow> ret_year list" where
  "df_ret df =
     map (\<lambda>r. \<lparr>y_wficn = r_wficn r, y_year = r_year r, y_month = r_month r,
               y_cumret = r_cumret r, y_yret = fsub (r_cumret r) (Some 1)\<rparr>)
         (filter (\<lambda>r. r_month r = 12) (df_ret_cum (df_ret_monthly df)))"

text \<open>
  \<^verbatim>\<open>df_crsp.query("month==12").groupby(["wficn", "year"])["mtna"].sum()\<close>, the column
  renamed to \<^verbatim>\<open>crsp_tna\<close>.
\<close>

record tna_row =
  t_wficn :: int
  t_year :: int
  t_crsp_tna :: float

definition df_tna :: "crsp_df list \<Rightarrow> tna_row list" where
  "df_tna df =
     map (\<lambda>(k, g). case k of (w, y) \<Rightarrow>
            \<lparr>t_wficn = w, t_year = y, t_crsp_tna = sum_skipna (map c_mtna g)\<rparr>)
         (groupby (\<lambda>r. (c_wficn r, c_year r)) (filter (\<lambda>r. c_month r = 12) df))"

text \<open>
  \<^verbatim>\<open>pd.merge(df_tna, df_ret)[['wficn', 'year', 'crsp_tna', 'yret']]\<close>: inner join on the
  common columns \<^verbatim>\<open>wficn\<close> and \<^verbatim>\<open>year\<close>.
\<close>

record crsp_clean =
  cc_wficn :: int
  cc_year :: int
  cc_crsp_tna :: float
  cc_yret :: float

definition df_crsp_clean :: "crsp_df list \<Rightarrow> crsp_clean list" where
  "df_crsp_clean df =
     concat (map (\<lambda>t. map (\<lambda>r. \<lparr>cc_wficn = t_wficn t, cc_year = t_year t,
                                 cc_crsp_tna = t_crsp_tna t, cc_yret = y_yret r\<rparr>)
                          (filter (\<lambda>r. y_wficn r = t_wficn t \<and> y_year r = t_year t) (df_ret df)))
                 (df_tna df))"

section \<open>S12 holdings\<close>

text \<open>
  \<open>s12_row\<close>: one holdings line of a fund report (\<^verbatim>\<open>fundno\<close>, \<^verbatim>\<open>fdate\<close>, the reported
  \<^verbatim>\<open>assets\<close>, the value \<^verbatim>\<open>useq_tna_k\<close> of the holding). \<open>mflink2_row\<close>: the dated link
  from a report id to \<^verbatim>\<open>wficn\<close>.
\<close>

record s12_row =
  fundno :: int
  fdate :: date
  assets :: float
  useq_tna_k :: float

record mflink2_row =
  l2_fdate :: date
  l2_fundno :: int
  l2_wficn :: "int option"

text \<open>
  \<^verbatim>\<open>pd.merge_asof(left, right, by='fundno', on='fdate', direction='nearest')\<close> for one
  left row: among the right rows of the same \<^verbatim>\<open>fundno\<close>, the last one dated at or before
  the left date and the first one dated at or after it; the closer of the two, the earlier
  on a tie; \<open>None\<close> when the \<^verbatim>\<open>fundno\<close> has no right row. The right frame is sorted.
\<close>

definition asof_nearest :: "mflink2_row list \<Rightarrow> s12_row \<Rightarrow> int option" where
  "asof_nearest right l =
     (let cands = filter (\<lambda>r. l2_fundno r = fundno l) right;
          bwd = filter (\<lambda>r. l2_fdate r \<le> fdate l) cands;
          fwd = filter (\<lambda>r. fdate l \<le> l2_fdate r) cands
      in if bwd = [] \<and> fwd = [] then None
         else if fwd = [] then l2_wficn (last bwd)
         else if bwd = [] then l2_wficn (hd fwd)
         else if days_from_civil (fdate l) - days_from_civil (l2_fdate (last bwd))
                 \<le> days_from_civil (l2_fdate (hd fwd)) - days_from_civil (fdate l)
              then l2_wficn (last bwd)
              else l2_wficn (hd fwd))"

text \<open>The frame \<^verbatim>\<open>df_s12\<close> after the merge cell: a left join, then the non-null filter.\<close>

record s12_df =
  s_fundno :: int
  s_fdate :: date
  s_assets :: float
  s_useq_tna_k :: float
  s_year :: int
  s_wficn :: int

definition link_row :: "mflink2_row list \<Rightarrow> s12_row \<Rightarrow> s12_df list" where
  "link_row right l =
     (case asof_nearest right l of
        None \<Rightarrow> []
      | Some w \<Rightarrow>
          [\<lparr>s_fundno = fundno l, s_fdate = fdate l, s_assets = assets l,
            s_useq_tna_k = useq_tna_k l, s_year = dt_year (fdate l), s_wficn = w\<rparr>])"

definition df_s12 :: "s12_row list \<Rightarrow> mflink2_row list \<Rightarrow> s12_df list" where
  "df_s12 s12 mflink2 =
     concat (map (link_row (sort_key (\<lambda>r. (l2_fdate r, l2_fundno r)) mflink2))
                 (sort_key (\<lambda>l. (fdate l, fundno l)) s12))"

text \<open>
  \<^verbatim>\<open>assets.fillna(0)\<close>, then
  \<^verbatim>\<open>groupby(['year', 'fdate', 'wficn', 'assets'])['useq_tna_k'].sum().reset_index()\<close>,
  then \<^verbatim>\<open>np.where(assets == 0, np.nan, assets)\<close>.
\<close>

record eq_report =
  e_year :: int
  e_fdate :: date
  e_wficn :: int
  e_assets :: float
  e_useq_tna_k :: float

definition assets_filled :: "s12_df \<Rightarrow> real" where
  "assets_filled r = (case fillna 0 (s_assets r) of None \<Rightarrow> 0 | Some a \<Rightarrow> a)"

definition df_eq_reports :: "s12_df list \<Rightarrow> eq_report list" where
  "df_eq_reports df =
     map (\<lambda>(k, g). case k of (y, d, w, a) \<Rightarrow>
            \<lparr>e_year = y, e_fdate = d, e_wficn = w,
             e_assets = (if a = 0 then None else Some a),
             e_useq_tna_k = sum_skipna (map s_useq_tna_k g)\<rparr>)
         (groupby (\<lambda>r. (s_year r, s_fdate r, s_wficn r, assets_filled r)) df)"

text \<open>\<^verbatim>\<open>df_eq.groupby(['wficn', 'year'])[['assets', 'useq_tna_k']].last().reset_index()\<close>.\<close>

record eq_row =
  q_wficn :: int
  q_year :: int
  q_assets :: float
  q_useq_tna_k :: float

definition df_eq :: "s12_df list \<Rightarrow> eq_row list" where
  "df_eq df =
     map (\<lambda>(k, g). case k of (w, y) \<Rightarrow>
            \<lparr>q_wficn = w, q_year = y, q_assets = last_skipna (map e_assets g),
             q_useq_tna_k = last_skipna (map e_useq_tna_k g)\<rparr>)
         (groupby (\<lambda>r. (e_wficn r, e_year r)) (df_eq_reports df))"

section \<open>The joined fund-year table and the universe filters\<close>

record fund_year =
  wficn :: int
  year :: int
  crsp_tna :: float
  yret :: float
  fy_assets :: float
  fy_useq_tna_k :: float

text \<open>
  \<^verbatim>\<open>pd.merge(df_crsp_clean, df_eq, on=["wficn", "year"], how="inner").sort_values("year")\<close>.
  The order of the rows of one year after the sort is not used by any later step.
\<close>

definition df_combo :: "crsp_clean list \<Rightarrow> eq_row list \<Rightarrow> fund_year list" where
  "df_combo clean eq =
     sort_key year
       (concat (map (\<lambda>c. map (\<lambda>q. \<lparr>wficn = cc_wficn c, year = cc_year c,
                                    crsp_tna = cc_crsp_tna c, yret = cc_yret c,
                                    fy_assets = q_assets q, fy_useq_tna_k = q_useq_tna_k q\<rparr>)
                              (filter (\<lambda>q. q_wficn q = cc_wficn c \<and> q_year q = cc_year c) eq))
                    clean))"

text \<open>Filter a: \<^verbatim>\<open>df_combo.query("crsp_tna > 1")\<close>.\<close>

definition filter_tna :: "fund_year list \<Rightarrow> fund_year list" where
  "filter_tna df = filter (\<lambda>r. fgt (crsp_tna r) 1) df"

text \<open>
  Filter b. \<^verbatim>\<open>np.where(assets.isnull(), 1, crsp_tna * 1e6 / assets / 1e4)\<close> computes the
  quotient for every row and then selects; \<^verbatim>\<open>query("tna_ratio > 0.5 and tna_ratio < 2")\<close>.
\<close>

record fund_year_tr = fund_year +
  tna_ratio :: float

definition tna_ratio_quotient :: "fund_year \<Rightarrow> np_warning + float" where
  "tna_ratio_quotient r =
     then_div (fdiv (fmul (crsp_tna r) (Some 1000000)) (fy_assets r)) (Some 10000)"

definition add_tna_ratio :: "fund_year \<Rightarrow> fund_year_tr" where
  "add_tna_ratio r =
     fund_year.extend r
       (fund_year_tr.fields
          (if isnull (fy_assets r) then Some 1 else cell (tna_ratio_quotient r)))"

definition filter_tna_ratio :: "fund_year list \<Rightarrow> fund_year_tr list" where
  "filter_tna_ratio df =
     filter (\<lambda>r. fgt (tna_ratio r) (1 / 2) \<and> flt (tna_ratio r) 2) (map add_tna_ratio df)"

text \<open>
  Filter c. \<^verbatim>\<open>eq_ratio_1 = useq_tna_k * 1e3 / (crsp_tna * 1e6)\<close>,
  \<^verbatim>\<open>eq_ratio_2 = np.where(assets.isnull(), 1, useq_tna_k * 1e3 / (assets * 1e4))\<close>; a row
  stays when either is \<^verbatim>\<open>between(0.8, 1.05)\<close>.
\<close>

record fund_year_eq = fund_year_tr +
  eq_ratio_1 :: float
  eq_ratio_2 :: float

definition eq_ratio_1_quotient :: "fund_year_tr \<Rightarrow> np_warning + float" where
  "eq_ratio_1_quotient r =
     fdiv (fmul (fy_useq_tna_k r) (Some 1000)) (fmul (crsp_tna r) (Some 1000000))"

definition eq_ratio_2_quotient :: "fund_year_tr \<Rightarrow> np_warning + float" where
  "eq_ratio_2_quotient r =
     fdiv (fmul (fy_useq_tna_k r) (Some 1000)) (fmul (fy_assets r) (Some 10000))"

definition add_eq_ratios :: "fund_year_tr \<Rightarrow> fund_year_eq" where
  "add_eq_ratios r =
     fund_year_tr.extend r
       (fund_year_eq.fields
          (cell (eq_ratio_1_quotient r))
          (if isnull (fy_assets r) then Some 1 else cell (eq_ratio_2_quotient r)))"

definition filter_eq_ratio :: "fund_year_tr list \<Rightarrow> fund_year_eq list" where
  "filter_eq_ratio df =
     filter (\<lambda>r. between (eq_ratio_1 r) (8 / 10) (105 / 100)
                \<or> between (eq_ratio_2 r) (8 / 10) (105 / 100))
            (map add_eq_ratios df)"

text \<open>The whole notebook, from the four input tables to the final \<^verbatim>\<open>df_combo\<close>.\<close>

definition joined :: "crsp_row list \<Rightarrow> mflink1_row list \<Rightarrow> s12_row list \<Rightarrow> mflink2_row list
    \<Rightarrow> fund_year list" where
  "joined crsp mflink1 s12 mflink2 =
     df_combo (df_crsp_clean (df_crsp crsp mflink1)) (df_eq (df_s12 s12 mflink2))"

definition universe :: "crsp_row list \<Rightarrow> mflink1_row list \<Rightarrow> s12_row list \<Rightarrow> mflink2_row list
    \<Rightarrow> fund_year_eq list" where
  "universe crsp mflink1 s12 mflink2 =
     filter_eq_ratio (filter_tna_ratio (filter_tna (joined crsp mflink1 s12 mflink2)))"

section \<open>Reference definitions\<close>

text \<open>
  These definitions are not steps of the notebook. They say, in the words of the
  specification, what each yearly figure is meant to be; the theorems below compare them
  with the frames the notebook computes.
\<close>

text \<open>The months of year \<open>y\<close> for which fund \<open>w\<close> has at least one row.\<close>

definition months_available :: "crsp_df list \<Rightarrow> int \<Rightarrow> int \<Rightarrow> int set" where
  "months_available df w y = set (map c_month (filter (\<lambda>r. c_wficn r = w \<and> c_year r = y) df))"

text \<open>The simple mean of the returns of fund \<open>w\<close> in month \<open>m\<close> of year \<open>y\<close>.\<close>

definition monthly_mean :: "crsp_df list \<Rightarrow> int \<Rightarrow> int \<Rightarrow> int \<Rightarrow> real" where
  "monthly_mean df w y m =
     (let rets = dropna (map c_mret
                   (filter (\<lambda>r. c_wficn r = w \<and> c_year r = y \<and> c_month r = m) df))
      in sum_list rets / real (length rets))"

text \<open>
  The December TNA values of fund \<open>w\<close> in year \<open>y\<close>: the non-missing \<^verbatim>\<open>mtna\<close> cells of
  its December rows. The list is empty when the fund has no December row, and also when
  it has December rows but none reports a TNA. Their sum is the year-end TNA.
\<close>

definition december_tna_values :: "crsp_df list \<Rightarrow> int \<Rightarrow> int \<Rightarrow> real list" where
  "december_tna_values df w y =
     dropna (map c_mtna
       (filter (\<lambda>r. c_wficn r = w \<and> c_year r = y \<and> c_month r = 12) df))"

definition december_tna :: "crsp_df list \<Rightarrow> int \<Rightarrow> int \<Rightarrow> real" where
  "december_tna df w y = sum_list (december_tna_values df w y)"

text \<open>
  The return a share-class record contributes once a missing value counts as 0, and the
  linked share-class records of fund \<open>w\<close> in month \<open>m\<close> of year \<open>y\<close>, as they come out
  of the merge with the link table, before any value is filled.
\<close>

definition filled_return :: "crsp_row \<Rightarrow> real" where
  "filled_return r = (case mret r of None \<Rightarrow> 0 | Some v \<Rightarrow> v)"

definition share_class_rows :: "crsp_row list \<Rightarrow> mflink1_row list \<Rightarrow> int \<Rightarrow> int \<Rightarrow> int \<Rightarrow> crsp_row list" where
  "share_class_rows crsp mflink1 w y m =
     map fst (filter (\<lambda>p. snd p = Some w \<and> dt_year (caldt (fst p)) = y \<and> dt_month (caldt (fst p)) = m)
                     (merge_mflink1 crsp mflink1))"

text \<open>
  A return record has a match when the static link table has a row for its share-class
  id; the fund-level id of a holdings record is what the nearest-date match against the
  sorted dated link table gives.
\<close>

definition has_link :: "mflink1_row list \<Rightarrow> crsp_row \<Rightarrow> bool" where
  "has_link mflink1 r = (\<exists>l\<in>set mflink1. l1_crsp_fundno l = crsp_fundno r)"

definition fund_level_id :: "mflink2_row list \<Rightarrow> s12_row \<Rightarrow> int option" where
  "fund_level_id mflink2 h = asof_nearest (sort_key (\<lambda>r. (l2_fdate r, l2_fundno r)) mflink2) h"

section \<open>Example tables\<close>

text \<open>
  A small run of the notebook. Share classes 1 and 2 belong to fund 7, share class 4 to
  fund 9, share class 5 to fund 8, share class 3 has no link. Fund 7 has returns for
  October to December 2000, with one missing return in November; fund 9 has no December
  row. Report id 5 belongs to fund 7, report id 7 to fund 8 (its report gives no assets),
  report id 6 has no link.
\<close>

definition ex_crsp :: "crsp_row list" where
  "ex_crsp =
     [\<lparr>crsp_fundno = 1, caldt = (2000, 10, 31), mret = Some (1 / 100), mtna = Some 90\<rparr>,
      \<lparr>crsp_fundno = 1, caldt = (2000, 11, 30), mret = Some (- 4 / 100), mtna = Some 95\<rparr>,
      \<lparr>crsp_fundno = 2, caldt = (2000, 11, 30), mret = None, mtna = None\<rparr>,
      \<lparr>crsp_fundno = 1, caldt = (2000, 12, 31), mret = Some (2 / 100), mtna = Some 100\<rparr>,
      \<lparr>crsp_fundno = 2, caldt = (2000, 12, 31), mret = Some (4 / 100), mtna = Some 50\<rparr>,
      \<lparr>crsp_fundno = 3, caldt = (2000, 12, 31), mret = Some (1 / 2), mtna = Some 1000\<rparr>,
      \<lparr>crsp_fundno = 4, caldt = (2000, 11, 30), mret = Some (1 / 10), mtna = Some 20\<rparr>,
      \<lparr>crsp_fundno = 5, caldt = (2000, 12, 31), mret = Some (5 / 100), mtna = Some 200\<rparr>]"

definition ex_mflink1 :: "mflink1_row list" where
  "ex_mflink1 =
     [\<lparr>l1_crsp_fundno = 1, l1_wficn = Some 7\<rparr>,
      \<lparr>l1_crsp_fundno = 2, l1_wficn = Some 7\<rparr>,
      \<lparr>l1_crsp_fundno = 4, l1_wficn = Some 9\<rparr>,
      \<lparr>l1_crsp_fundno = 5, l1_wficn = Some 8\<rparr>]"

definition ex_s12 :: "s12_row list" where
  "ex_s12 =
     [\<lparr>fundno = 5, fdate = (2000, 6, 30), assets = Some 14000, useq_tna_k = Some 100000\<rparr>,
      \<lparr>fundno = 5, fdate = (2000, 12, 31), assets = Some 15000, useq_tna_k = Some 80000\<rparr>,
      \<lparr>fundno = 5, fdate = (2000, 12, 31), assets = Some 15000, useq_tna_k = Some 55000\<rparr>,
      \<lparr>fundno = 6, fdate = (2000, 12, 31), assets = Some 3000, useq_tna_k = Some 2000\<rparr>,
      \<lparr>fundno = 7, fdate = (2000, 12, 31), assets = None, useq_tna_k = Some 1000\<rparr>]"

definition ex_mflink2 :: "mflink2_row list" where
  "ex_mflink2 =
     [\<lparr>l2_fdate = (2000, 6, 30), l2_fundno = 5, l2_wficn = Some 7\<rparr>,
      \<lparr>l2_fdate = (2001, 6, 30), l2_fundno = 5, l2_wficn = Some 7\<rparr>,
      \<lparr>l2_fdate = (2000, 12, 31), l2_fundno = 7, l2_wficn = Some 8\<rparr>]"

definition ex_universe_row :: fund_year_eq where
  "ex_universe_row =
     \<lparr>wficn = 7, year = 2000, crsp_tna = Some 150, yret = Some (9747 / 500000),
      fy_assets = Some 15000, fy_useq_tna_k = Some 135000, tna_ratio = Some 1,
      eq_ratio_1 = Some (9 / 10), eq_ratio_2 = Some (9 / 10)\<rparr>"

definition ex_universe_row_na :: fund_year_eq where
  "ex_universe_row_na =
     \<lparr>wficn = 8, year = 2000, crsp_tna = Some 200, yret = Some (1 / 20),
      fy_assets = None, fy_useq_tna_k = Some 1000, tna_ratio = Some 1,
      eq_ratio_1 = Some (1 / 200), eq_ratio_2 = Some 1\<rparr>"

text \<open>
  A second small run, for 2001. Fund 7 has year-end TNA 150 and reported assets 12000
  (TNA ratio 1.25); fund 8 has year-end TNA 500 and reported assets 10000 (TNA ratio 5);
  fund 9 has a December row whose TNA is missing.
\<close>

definition ex2_crsp :: "crsp_row list" where
  "ex2_crsp =
     [\<lparr>crsp_fundno = 1, caldt = (2001, 12, 31), mret = Some (2 / 100), mtna = Some 150\<rparr>,
      \<lparr>crsp_fundno = 2, caldt = (2001, 12, 31), mret = Some (1 / 100), mtna = Some 500\<rparr>,
      \<lparr>crsp_fundno = 3, caldt = (2001, 12, 31), mret = Some (3 / 100), mtna = None\<rparr>]"

definition ex2_mflink1 :: "mflink1_row list" where
  "ex2_mflink1 =
     [\<lparr>l1_crsp_fundno = 1, l1_wficn = Some 7\<rparr>,
      \<lparr>l1_crsp_fundno = 2, l1_wficn = Some 8\<rparr>,
      \<lparr>l1_crsp_fundno = 3, l1_wficn = Some 9\<rparr>]"

definition ex2_s12 :: "s12_row list" where
  "ex2_s12 =
     [\<lparr>fundno = 5, fdate = (2001, 12, 31), assets = Some 12000, useq_tna_k = Some 135000\<rparr>,
      \<lparr>fundno = 6, fdate = (2001, 12, 31), assets = Some 10000, useq_tna_k = Some 90000\<rparr>,
      \<lparr>fundno = 7, fdate = (2001, 12, 31), assets = Some 100, useq_tna_k = Some 900\<rparr>]"

definition ex2_mflink2 :: "mflink2_row list" where
  "ex2_mflink2 =
     [\<lparr>l2_fdate = (2001, 12, 31), l2_fundno = 5, l2_wficn = Some 7\<rparr>,
      \<lparr>l2_fdate = (2001, 12, 31), l2_fundno = 6, l2_wficn = Some 8\<rparr>,
      \<lparr>l2_fdate = (2001, 12, 31), l2_fundno = 7, l2_wficn = Some 9\<rparr>]"

definition ex2_fund7 :: fund_year where
  "ex2_fund7 =
     \<lparr>wficn = 7, year = 2001, crsp_tna = Some 150, yret = Some (1 / 50),
      fy_assets = Some 12000, fy_useq_tna_k = Some 135000\<rparr>"

definition ex2_fund8 :: fund_year where
  "ex2_fund8 =
     \<lparr>wficn = 8, year = 2001, crsp_tna = Some 500, yret = Some (1 / 100),
      fy_assets = Some 10000, fy_useq_tna_k = Some 90000\<rparr>"

definition ex2_fund9 :: fund_year where
  "ex2_fund9 =
     \<lparr>wficn = 9, year = 2001, crsp_tna = Some 0, yret = Some (3 / 100),
      fy_assets = Some 100, fy_useq_tna_k = Some 900\<rparr>"

text \<open>
  A fund whose last report of 2011 has no reported assets: the March report gives assets
  500, the December report gives none.
\<close>

definition ex_s12_missing_assets :: "s12_row list" where
  "ex_s12_missing_assets =
     [\<lparr>fundno = 5, fdate = (2011, 3, 31), assets = Some 500, useq_tna_k = Some 100\<rparr>,
      \<lparr>fundno = 5, fdate = (2011, 12, 31), assets = None, useq_tna_k = Some 200\<rparr>]"

section \<open>Basic facts about the primitives\<close>

lemma set_dropna: "set (dropna xs) = {v. Some v \<in> set xs}"
  by (induction xs rule: dropna.induct) auto

lemma last_skipna_in:
  assumes "last_skipna xs = Some v"
  shows "Some v \<in> set xs"
proof -
  from assms have "dropna xs \<noteq> []" and "v = last (dropna xs)"
    by (auto simp: last_skipna_def split: list.splits)
  then have "v \<in> set (dropna xs)" by simp
  then show ?thesis by (simp add: set_dropna)
qed

lemma last_skipna_present:
  assumes "Some v \<in> set xs"
  shows "last_skipna xs \<noteq> None"
proof -
  from assms have "v \<in> set (dropna xs)" by (simp add: set_dropna)
  then have "dropna xs \<noteq> []" by auto
  then show ?thesis by (auto simp: last_skipna_def split: list.splits)
qed

lemma set_group_keys: "set (group_keys key rows) = key ` set rows"
  by (simp add: group_keys_def)

lemma distinct_group_keys: "distinct (group_keys key rows)"
  by (simp add: group_keys_def)

lemma groupby_member:
  "(k, g) \<in> set (groupby key rows) \<longleftrightarrow> k \<in> key ` set rows \<and> g = filter (\<lambda>r. key r = k) rows"
  by (auto simp: groupby_def set_group_keys)

lemma add_tna_ratio_simps:
  "wficn (add_tna_ratio r) = wficn r"
  "year (add_tna_ratio r) = year r"
  "crsp_tna (add_tna_ratio r) = crsp_tna r"
  "yret (add_tna_ratio r) = yret r"
  "fy_assets (add_tna_ratio r) = fy_assets r"
  "fy_useq_tna_k (add_tna_ratio r) = fy_useq_tna_k r"
  "tna_ratio (add_tna_ratio r) =
     (if isnull (fy_assets r) then Some 1 else cell (tna_ratio_quotient r))"
  "fund_year.truncate (add_tna_ratio r) = r"
  by (simp_all add: add_tna_ratio_def fund_year.defs fund_year_tr.defs)

lemma add_eq_ratios_simps:
  "wficn (add_eq_ratios r) = wficn r"
  "year (add_eq_ratios r) = year r"
  "crsp_tna (add_eq_ratios r) = crsp_tna r"
  "yret (add_eq_ratios r) = yret r"
  "fy_assets (add_eq_ratios r) = fy_assets r"
  "fy_useq_tna_k (add_eq_ratios r) = fy_useq_tna_k r"
  "tna_ratio (add_eq_ratios r) = tna_ratio r"
  "eq_ratio_1 (add_eq_ratios r) = cell (eq_ratio_1_quotient r)"
  "eq_ratio_2 (add_eq_ratios r) =
     (if isnull (fy_assets r) then Some 1 else cell (eq_ratio_2_quotient r))"
  "fund_year_tr.truncate (add_eq_ratios r) = r"
  by (simp_all add: add_eq_ratios_def fund_year.defs fund_year_tr.defs fund_year_eq.defs)

lemmas ratio_defs =
  add_tna_ratio_def add_eq_ratios_def fund_year.defs fund_year_tr.defs fund_year_eq.defs
  tna_ratio_quotient_def eq_ratio_1_quotient_def eq_ratio_2_quotient_def
  fdiv_def then_div_def cell_def fmul_def isnull_def fgt_def flt_def between_def

section \<open>Membership in the intermediate frames\<close>

lemma df_tna_member:
  "t \<in> set (df_tna df) \<longleftrightarrow>
     (\<exists>x\<in>set df. c_month x = 12 \<and>
        t = \<lparr>t_wficn = c_wficn x, t_year = c_year x,
             t_crsp_tna = sum_skipna (map c_mtna
               (filter (\<lambda>r. c_wficn r = c_wficn x \<and> c_year r = c_year x)
                  (filter (\<lambda>r. c_month r = 12) df)))\<rparr>)"
  by (auto simp: df_tna_def groupby_def set_group_keys image_iff)

lemma df_crsp_clean_member:
  "c \<in> set (df_crsp_clean df) \<longleftrightarrow>
     (\<exists>t\<in>set (df_tna df). \<exists>r\<in>set (df_ret df).
        y_wficn r = t_wficn t \<and> y_year r = t_year t \<and>
        c = \<lparr>cc_wficn = t_wficn t, cc_year = t_year t,
             cc_crsp_tna = t_crsp_tna t, cc_yret = y_yret r\<rparr>)"
  by (auto simp: df_crsp_clean_def)

lemma df_combo_member:
  "r \<in> set (df_combo clean eq) \<longleftrightarrow>
     (\<exists>c\<in>set clean. \<exists>q\<in>set eq.
        q_wficn q = cc_wficn c \<and> q_year q = cc_year c \<and>
        r = \<lparr>wficn = cc_wficn c, year = cc_year c, crsp_tna = cc_crsp_tna c,
             yret = cc_yret c, fy_assets = q_assets q, fy_useq_tna_k = q_useq_tna_k q\<rparr>)"
  by (auto simp: df_combo_def)

lemma df_eq_reports_cells:
  assumes "e \<in> set (df_eq_reports df)"
  shows "e_assets e \<noteq> Some 0" and "e_useq_tna_k e \<noteq> None"
  using assms by (auto simp: df_eq_reports_def groupby_def sum_skipna_def split: if_splits)

lemma df_eq_cells:
  assumes "q \<in> set (df_eq df)"
  shows "q_assets q \<noteq> Some 0" and "q_useq_tna_k q \<noteq> None"
proof -
  from assms obtain k g
    where kg: "(k, g) \<in> set (groupby (\<lambda>r. (e_wficn r, e_year r)) (df_eq_reports df))"
      and q: "q_assets q = last_skipna (map e_assets g)"
             "q_useq_tna_k q = last_skipna (map e_useq_tna_k g)"
    by (auto simp: df_eq_def)
  from kg have sub: "set g \<subseteq> set (df_eq_reports df)" and ne: "g \<noteq> []"
    by (auto simp: groupby_member filter_empty_conv)
  show "q_assets q \<noteq> Some 0"
  proof
    assume "q_assets q = Some 0"
    then have "last_skipna (map e_assets g) = Some 0" using q(1) by simp
    then have "Some 0 \<in> set (map e_assets g)" by (rule last_skipna_in)
    then obtain e where "e \<in> set g" "e_assets e = Some 0" by auto
    with sub show False using df_eq_reports_cells(1) by blast
  qed
  from ne obtain e where e: "e \<in> set g" by (cases g) auto
  with sub have "e_useq_tna_k e \<noteq> None" using df_eq_reports_cells(2) by blast
  then obtain v where "e_useq_tna_k e = Some v" by auto
  with e have "Some v \<in> set (map e_useq_tna_k g)" by force
  then show "q_useq_tna_k q \<noteq> None" using q(2) last_skipna_present by metis
qed

lemma joined_cells:
  assumes "r \<in> set (joined crsp mflink1 s12 mflink2)"
  shows "crsp_tna r \<noteq> None" and "fy_assets r \<noteq> Some 0" and "fy_useq_tna_k r \<noteq> None"
proof -
  from assms obtain c q where c: "c \<in> set (df_crsp_clean (df_crsp crsp mflink1))"
    and q: "q \<in> set (df_eq (df_s12 s12 mflink2))"
    and r: "crsp_tna r = cc_crsp_tna c" "fy_assets r = q_assets q"
           "fy_useq_tna_k r = q_useq_tna_k q"
    by (auto simp: joined_def df_combo_member)
  from c obtain t where "t \<in> set (df_tna (df_crsp crsp mflink1))" "cc_crsp_tna c = t_crsp_tna t"
    by (auto simp: df_crsp_clean_member)
  then show "crsp_tna r \<noteq> None" using r(1) by (auto simp: df_tna_member sum_skipna_def)
  show "fy_assets r \<noteq> Some 0" using df_eq_cells(1)[OF q] r(2) by simp
  show "fy_useq_tna_k r \<noteq> None" using df_eq_cells(2)[OF q] r(3) by simp
qed

lemma filter_tna_member:
  "r \<in> set (filter_tna df) \<longleftrightarrow> r \<in> set df \<and> (\<exists>c. crsp_tna r = Some c \<and> 1 < c)"
  by (auto simp: filter_tna_def fgt_def split: option.splits)

lemma filter_tna_ratio_member:
  "r \<in> set (filter_tna_ratio df) \<longleftrightarrow>
     (\<exists>b\<in>set df. r = add_tna_ratio b \<and> (\<exists>v. tna_ratio r = Some v \<and> 1 / 2 < v \<and> v < 2))"
  by (auto simp: filter_tna_ratio_def fgt_def flt_def split: option.splits)

lemma filter_eq_ratio_member:
  "r \<in> set (filter_eq_ratio df) \<longleftrightarrow>
     (\<exists>b\<in>set df. r = add_eq_ratios b \<and>
        ((\<exists>v. eq_ratio_1 r = Some v \<and> 8 / 10 \<le> v \<and> v \<le> 105 / 100) \<or>
         (\<exists>v. eq_ratio_2 r = Some v \<and> 8 / 10 \<le> v \<and> v \<le> 105 / 100)))"
  by (auto simp: filter_eq_ratio_def between_def split: option.splits)

lemma universe_origin:
  assumes "r \<in> set (universe crsp mflink1 s12 mflink2)"
  obtains j where "j \<in> set (joined crsp mflink1 s12 mflink2)"
    and "r = add_eq_ratios (add_tna_ratio j)"
    and "add_tna_ratio j \<in> set (filter_tna_ratio (filter_tna (joined crsp mflink1 s12 mflink2)))"
    and "j \<in> set (filter_tna (joined crsp mflink1 s12 mflink2))"
proof -
  from assms obtain b
    where b: "b \<in> set (filter_tna_ratio (filter_tna (joined crsp mflink1 s12 mflink2)))"
      and rb: "r = add_eq_ratios b"
    unfolding universe_def filter_eq_ratio_member by blast
  from b obtain j where j: "j \<in> set (filter_tna (joined crsp mflink1 s12 mflink2))"
    and bj: "b = add_tna_ratio j"
    unfolding filter_tna_ratio_member by blast
  from j have "j \<in> set (joined crsp mflink1 s12 mflink2)" by (simp add: filter_tna_member)
  with that b rb j bj show thesis by simp
qed

section \<open>The grouped running product and the monthly means\<close>

lemma length_group_cumprod: "length (group_cumprod accum xs) = length xs"
proof (induction xs arbitrary: accum)
  case Nil
  then show ?case by simp
next
  case (Cons x xs)
  then show ?case by (cases x; cases "snd x") auto
qed

text \<open>The running product at position j: the start value of the label times the values of
  the same label up to and including j.\<close>

lemma group_cumprod_nth:
  assumes "j < length xs" and "\<forall>p\<in>set xs. snd p \<noteq> None"
  shows "group_cumprod accum xs ! j =
           Some (accum (fst (xs ! j)) *
                 prod_list (dropna (map snd (filter (\<lambda>p. fst p = fst (xs ! j)) (take (Suc j) xs)))))"
  using assms
proof (induction xs arbitrary: accum j)
  case Nil
  then show ?case by simp
next
  case (Cons x xs)
  obtain lab v where x: "x = (lab, Some v)" using Cons.prems(2) by (cases x) auto
  show ?case
  proof (cases j)
    case 0
    then show ?thesis by (simp add: x)
  next
    case (Suc j')
    with Cons.prems have j': "j' < length xs" and all: "\<forall>p\<in>set xs. snd p \<noteq> None" by simp_all
    have "group_cumprod accum (x # xs) ! j = group_cumprod (accum(lab := accum lab * v)) xs ! j'"
      by (simp add: x Suc)
    also have "\<dots> = Some ((accum(lab := accum lab * v)) (fst (xs ! j')) *
                 prod_list (dropna (map snd (filter (\<lambda>p. fst p = fst (xs ! j')) (take (Suc j') xs)))))"
      by (rule Cons.IH[OF j' all])
    also have "\<dots> = Some (accum (fst ((x # xs) ! j)) *
                 prod_list (dropna (map snd (filter (\<lambda>p. fst p = fst ((x # xs) ! j)) (take (Suc j) (x # xs))))))"
      by (simp add: x Suc)
    finally show ?thesis .
  qed
qed

lemma filter_take_sorted:
  fixes K :: "'a \<Rightarrow> 'k::linorder"
  assumes srt: "sorted (map K xs)" and j: "j < length xs"
    and dist: "distinct (map (\<lambda>p. (g p, K p)) xs)"
  shows "filter (\<lambda>p. g p = g (xs ! j)) (take (Suc j) xs) =
         filter (\<lambda>p. g p = g (xs ! j) \<and> K p \<le> K (xs ! j)) xs"
proof -
  let ?Q = "\<lambda>p. g p = g (xs ! j) \<and> K p \<le> K (xs ! j)"
  have before: "K p \<le> K (xs ! j)" if "p \<in> set (take (Suc j) xs)" for p
  proof -
    from that obtain k where k: "k < length (take (Suc j) xs)" and p: "p = take (Suc j) xs ! k"
      by (auto simp: in_set_conv_nth)
    from k j have kj: "k \<le> j" by simp
    have "map K xs ! k \<le> map K xs ! j"
      using srt kj j by (intro sorted_nth_mono) simp_all
    with k kj j p show ?thesis by simp
  qed
  have after: "\<not> ?Q p" if "p \<in> set (drop (Suc j) xs)" for p
  proof
    assume Q: "?Q p"
    from that obtain k where k: "k < length (drop (Suc j) xs)" and p: "p = drop (Suc j) xs ! k"
      by (auto simp: in_set_conv_nth)
    let ?i = "Suc j + k"
    from k have i: "?i < length xs" by simp
    from p k have pi: "p = xs ! ?i" by simp
    have "map K xs ! j \<le> map K xs ! ?i"
      using srt i by (intro sorted_nth_mono) simp_all
    with i j pi have "K (xs ! j) \<le> K p" by simp
    with Q have "K p = K (xs ! j)" by simp
    with Q have same: "map (\<lambda>p. (g p, K p)) xs ! ?i = map (\<lambda>p. (g p, K p)) xs ! j"
      using i j pi by simp
    have "(map (\<lambda>p. (g p, K p)) xs ! ?i = map (\<lambda>p. (g p, K p)) xs ! j) = (?i = j)"
      using dist i j by (intro nth_eq_iff_index_eq) simp_all
    with same have "?i = j" by blast
    then show False by simp
  qed
  have "filter ?Q xs = filter ?Q (take (Suc j) xs @ drop (Suc j) xs)" by simp
  also have "\<dots> = filter ?Q (take (Suc j) xs) @ filter ?Q (drop (Suc j) xs)" by (rule filter_append)
  also have "filter ?Q (drop (Suc j) xs) = []" using after by (simp add: filter_empty_conv)
  also have "filter ?Q (take (Suc j) xs) = filter (\<lambda>p. g p = g (xs ! j)) (take (Suc j) xs)"
    using before by (intro filter_cong) auto
  finally show ?thesis by simp
qed

text \<open>Lookup of a row's label in the index-aligned result of a computation on the sorted frame.\<close>

lemma map_of_sorted_index:
  assumes len: "length out = length xs" and i: "i < length xs"
  shows "\<exists>j<length xs. sort_key K (zip [0..<length xs] xs) ! j = (i, xs ! i) \<and>
           map_of (zip (map fst (sort_key K (zip [0..<length xs] xs))) out) i = Some (out ! j)"
proof -
  let ?ix = "zip [0..<length xs] xs"
  let ?srt = "sort_key K ?ix"
  have fst_ix: "map fst ?ix = [0..<length xs]" by simp
  have "distinct (map fst ?ix)" by (simp only: fst_ix distinct_upt)
  then have "distinct ?ix \<and> inj_on fst (set ?ix)" by (rule iffD1[OF distinct_map])
  then have dist: "distinct (map fst ?srt)" by (simp add: distinct_map)
  have "(i, xs ! i) \<in> set ?ix" using i by (auto simp: in_set_zip intro!: exI[of _ i])
  then have "(i, xs ! i) \<in> set ?srt" by simp
  then have "\<exists>j<length ?srt. ?srt ! j = (i, xs ! i)" by (simp only: in_set_conv_nth)
  then obtain j where j: "j < length ?srt" and sj: "?srt ! j = (i, xs ! i)" by blast
  have "map_of (zip (map fst ?srt) out) (map fst ?srt ! j) = Some (out ! j)"
    using len dist j by (intro map_of_zip_nth) simp_all
  with j sj have "map_of (zip (map fst ?srt) out) i = Some (out ! j)" by simp
  with j sj show ?thesis by auto
qed

lemma dropna_map_Some: "dropna (map (\<lambda>x. Some (f x)) xs) = map f xs"
  by (induction xs) simp_all

lemma df_ret_cum_nth:
  assumes dist: "distinct (map (\<lambda>r. (m_wficn r, m_year r, m_month r)) M)"
    and some: "\<forall>r\<in>set M. m_mret r = Some (h r)"
    and i: "i < length M"
  shows "r_cumret (df_ret_cum M ! i) =
           Some (\<Prod>r\<in>{r \<in> set M. m_wficn r = m_wficn (M ! i) \<and> m_year r = m_year (M ! i)
                               \<and> m_month r \<le> m_month (M ! i)}. 1 + h r)"
proof -
  let ?K = "\<lambda>p::nat \<times> ret_monthly. (m_year (snd p), m_month (snd p))"
  let ?g = "\<lambda>p::nat \<times> ret_monthly. (m_wficn (snd p), m_year (snd p))"
  let ?G = "\<lambda>p::nat \<times> ret_monthly. ((m_wficn (snd p), m_year (snd p)), mult_of (snd p))"
  let ?ix = "zip [0..<length M] M"
  let ?srt = "sort_key ?K ?ix"
  let ?out = "group_cumprod (\<lambda>_. 1) (map ?G ?srt)"
  let ?Q = "\<lambda>p. ?g p = ?g (i, M ! i) \<and> ?K p \<le> ?K (i, M ! i)"
  have snd_ix: "map snd ?ix = M" by simp
  have set_srt: "set ?srt = set ?ix" by simp
  have in_M: "snd p \<in> set M" if "p \<in> set ?srt" for p
    using that set_zip_rightD[of "fst p" "snd p" "[0..<length M]" M] by simp
  have mult: "mult_of (snd p) = Some (1 + h (snd p))" if "p \<in> set ?srt" for p
    using in_M[OF that] some by (simp add: mult_of_def fadd_def)
  have len: "length ?out = length M" by (simp add: length_group_cumprod)
  from map_of_sorted_index[OF len i, of ?K]
  obtain j where j: "j < length M" and sj: "?srt ! j = (i, M ! i)"
    and look: "map_of (zip (map fst ?srt) ?out) i = Some (?out ! j)"
    by blast
  have cum: "r_cumret (df_ret_cum M ! i) = ?out ! j"
    using i look by (simp add: df_ret_cum_def cumret_by_index_def Let_def)
  have jl: "j < length (map ?G ?srt)" using j by simp
  have allsome: "\<forall>p\<in>set (map ?G ?srt). snd p \<noteq> None" using mult by auto
  have out_j: "?out ! j =
      Some (1 * prod_list (dropna (map snd (filter (\<lambda>p. fst p = fst (map ?G ?srt ! j))
                                                  (take (Suc j) (map ?G ?srt))))))"
    by (rule group_cumprod_nth[OF jl allsome])
  have lab: "fst (map ?G ?srt ! j) = ?g (i, M ! i)" using j sj by simp
  have "filter (\<lambda>p. fst p = ?g (i, M ! i)) (take (Suc j) (map ?G ?srt)) =
        map ?G (filter (\<lambda>p. ?g p = ?g (i, M ! i)) (take (Suc j) ?srt))"
    by (simp add: take_map filter_map comp_def)
  also have "filter (\<lambda>p. ?g p = ?g (i, M ! i)) (take (Suc j) ?srt) = filter ?Q ?srt"
  proof -
    have s: "sorted (map ?K ?srt)" by (rule sorted_sort_key)
    have jj: "j < length ?srt" using j by simp
    have "distinct (map (\<lambda>p. (?g p, ?K p)) ?ix)"
    proof -
      have "map (\<lambda>p. (?g p, ?K p)) ?ix = map ((\<lambda>r. ((m_wficn r, m_year r), (m_year r, m_month r))) \<circ> snd) ?ix"
        by (simp add: comp_def)
      also have "\<dots> = map (\<lambda>r. ((m_wficn r, m_year r), (m_year r, m_month r))) M"
        by (simp only: map_map[symmetric] snd_ix)
      finally have e: "map (\<lambda>p. (?g p, ?K p)) ?ix = map (\<lambda>r. ((m_wficn r, m_year r), (m_year r, m_month r))) M" .
      have "distinct (map (\<lambda>r. ((m_wficn r, m_year r), (m_year r, m_month r))) M)"
        using dist by (auto simp: distinct_map inj_on_def)
      with e show ?thesis by simp
    qed
    then have d: "distinct (map (\<lambda>p. (?g p, ?K p)) ?srt)"
      by (simp add: distinct_map)
    from filter_take_sorted[OF s jj d] sj show ?thesis by simp
  qed
  finally have flt: "filter (\<lambda>p. fst p = ?g (i, M ! i)) (take (Suc j) (map ?G ?srt)) =
        map ?G (filter ?Q ?srt)" .
  have "dropna (map snd (map ?G (filter ?Q ?srt))) = dropna (map (\<lambda>p. Some (1 + h (snd p))) (filter ?Q ?srt))"
    using mult by (auto simp: comp_def intro!: arg_cong[of _ _ dropna] map_cong)
  also have "\<dots> = map (\<lambda>p. 1 + h (snd p)) (filter ?Q ?srt)" by (rule dropna_map_Some)
  also have "\<dots> = map (\<lambda>r. 1 + h r) (filter (\<lambda>r. (m_wficn r, m_year r) = (m_wficn (M ! i), m_year (M ! i))
        \<and> (m_year r, m_month r) \<le> (m_year (M ! i), m_month (M ! i))) (map snd ?srt))"
    by (simp add: filter_map comp_def)
  finally have vals: "dropna (map snd (map ?G (filter ?Q ?srt))) =
      map (\<lambda>r. 1 + h r) (filter (\<lambda>r. (m_wficn r, m_year r) = (m_wficn (M ! i), m_year (M ! i))
        \<and> (m_year r, m_month r) \<le> (m_year (M ! i), m_month (M ! i))) (map snd ?srt))" .
  have dM: "distinct M" using dist by (simp add: distinct_map)
  have dsnd: "distinct (map snd ?srt)"
  proof -
    have "distinct (map snd ?ix)" using dM by (simp only: snd_ix)
    then have "distinct ?ix \<and> inj_on snd (set ?ix)" by (rule iffD1[OF distinct_map])
    then show ?thesis by (simp add: distinct_map)
  qed
  have set_snd: "set (map snd ?srt) = set M"
  proof -
    have "set (map snd ?srt) = snd ` set ?ix" by simp
    also have "\<dots> = set (map snd ?ix)" by (simp only: set_map)
    also have "\<dots> = set M" by (simp only: snd_ix)
    finally show ?thesis .
  qed
  let ?Q' = "\<lambda>r. (m_wficn r, m_year r) = (m_wficn (M ! i), m_year (M ! i))
        \<and> (m_year r, m_month r) \<le> (m_year (M ! i), m_month (M ! i))"
  have "prod_list (map (\<lambda>r. 1 + h r) (filter ?Q' (map snd ?srt))) =
        (\<Prod>r\<in>set (filter ?Q' (map snd ?srt)). 1 + h r)"
    using dsnd by (intro prod.distinct_set_conv_list[symmetric] distinct_filter)
  also have "set (filter ?Q' (map snd ?srt)) = {r \<in> set M. m_wficn r = m_wficn (M ! i) \<and> m_year r = m_year (M ! i)
                               \<and> m_month r \<le> m_month (M ! i)}"
    using set_snd by auto
  finally have "prod_list (map (\<lambda>r. 1 + h r) (filter ?Q' (map snd ?srt))) =
     (\<Prod>r\<in>{r \<in> set M. m_wficn r = m_wficn (M ! i) \<and> m_year r = m_year (M ! i)
                               \<and> m_month r \<le> m_month (M ! i)}. 1 + h r)" .
  with cum out_j lab flt vals show ?thesis by simp
qed

lemma df_ret_monthly_keys:
  "map (\<lambda>r. (m_wficn r, m_year r, m_month r)) (df_ret_monthly df) =
     group_keys (\<lambda>r. (c_wficn r, c_year r, c_month r)) df"
  by (simp add: df_ret_monthly_def groupby_def comp_def split_def)

lemma df_ret_monthly_distinct:
  "distinct (map (\<lambda>r. (m_wficn r, m_year r, m_month r)) (df_ret_monthly df))"
  by (simp only: df_ret_monthly_keys distinct_group_keys)

lemma df_ret_monthly_key_set:
  "(\<lambda>r. (m_wficn r, m_year r, m_month r)) ` set (df_ret_monthly df) =
     (\<lambda>r. (c_wficn r, c_year r, c_month r)) ` set df"
proof -
  have "(\<lambda>r. (m_wficn r, m_year r, m_month r)) ` set (df_ret_monthly df) =
        set (map (\<lambda>r. (m_wficn r, m_year r, m_month r)) (df_ret_monthly df))" by simp
  also have "\<dots> = set (group_keys (\<lambda>r. (c_wficn r, c_year r, c_month r)) df)"
    by (simp only: df_ret_monthly_keys)
  finally show ?thesis by (simp add: set_group_keys)
qed

lemma df_ret_monthly_mret:
  assumes r: "r \<in> set (df_ret_monthly df)"
  shows "m_mret r = mean (map c_mret (filter (\<lambda>x. c_wficn x = m_wficn r \<and> c_year x = m_year r
                                              \<and> c_month x = m_month r) df))"
    and "\<exists>x\<in>set df. c_wficn x = m_wficn r \<and> c_year x = m_year r \<and> c_month x = m_month r"
  using r by (auto simp: df_ret_monthly_def groupby_def set_group_keys)

lemma df_ret_monthly_mean:
  assumes r: "r \<in> set (df_ret_monthly df)" and some: "\<forall>x\<in>set df. c_mret x \<noteq> None"
  shows "m_mret r = Some (monthly_mean df (m_wficn r) (m_year r) (m_month r))"
proof -
  let ?g = "filter (\<lambda>x. c_wficn x = m_wficn r \<and> c_year x = m_year r \<and> c_month x = m_month r) df"
  from df_ret_monthly_mret(2)[OF r] obtain x where x: "x \<in> set ?g" by auto
  with some obtain v where "c_mret x = Some v" by auto
  with x have "Some v \<in> set (map c_mret ?g)" by force
  then have "v \<in> set (dropna (map c_mret ?g))" by (simp add: set_dropna)
  then have "dropna (map c_mret ?g) \<noteq> []" by auto
  then show ?thesis
    by (simp add: df_ret_monthly_mret(1)[OF r] mean_def monthly_mean_def Let_def)
qed

lemma df_ret_cum_rows:
  assumes "r \<in> set (df_ret_cum M)"
  obtains i where "i < length M" and "r = df_ret_cum M ! i" and "r_wficn r = m_wficn (M ! i)"
    and "r_year r = m_year (M ! i)" and "r_month r = m_month (M ! i)"
proof -
  have len: "length (df_ret_cum M) = length M" by (simp add: df_ret_cum_def)
  from assms obtain i where i: "i < length (df_ret_cum M)" and r: "r = df_ret_cum M ! i"
    by (auto simp: in_set_conv_nth)
  from i len have iM: "i < length M" by simp
  then have "r_wficn r = m_wficn (M ! i)" "r_year r = m_year (M ! i)" "r_month r = m_month (M ! i)"
    by (simp_all add: r df_ret_cum_def)
  with iM r that show thesis by blast
qed

lemma df_ret_december_value:
  assumes some: "\<forall>x\<in>set df. c_mret x \<noteq> None"
    and a: "a \<in> set (df_ret df)"
  shows "y_month a = 12"
    and "y_cumret a = Some (\<Prod>m\<in>{m \<in> months_available df (y_wficn a) (y_year a). m \<le> 12}.
                                1 + monthly_mean df (y_wficn a) (y_year a) m)"
    and "y_yret a = fsub (y_cumret a) (Some 1)"
proof -
  let ?M = "df_ret_monthly df"
  let ?h = "\<lambda>r. monthly_mean df (m_wficn r) (m_year r) (m_month r)"
  from a obtain r where r: "r \<in> set (df_ret_cum ?M)" and m12: "r_month r = 12"
    and ar: "y_wficn a = r_wficn r" "y_year a = r_year r" "y_month a = r_month r"
            "y_cumret a = r_cumret r" "y_yret a = fsub (r_cumret r) (Some 1)"
    by (auto simp: df_ret_def)
  from r obtain i where i: "i < length ?M" and ri: "r = df_ret_cum ?M ! i"
    and keys: "r_wficn r = m_wficn (?M ! i)" "r_year r = m_year (?M ! i)"
              "r_month r = m_month (?M ! i)"
    by (rule df_ret_cum_rows)
  show "y_month a = 12" using ar m12 by simp
  show "y_yret a = fsub (y_cumret a) (Some 1)" using ar by simp
  let ?w = "y_wficn a" and ?y = "y_year a"
  let ?S = "{r \<in> set ?M. m_wficn r = ?w \<and> m_year r = ?y \<and> m_month r \<le> 12}"
  have hs: "\<forall>r\<in>set ?M. m_mret r = Some (?h r)"
    using df_ret_monthly_mean some by blast
  have "r_cumret r = Some (\<Prod>r\<in>{r \<in> set ?M. m_wficn r = m_wficn (?M ! i) \<and> m_year r = m_year (?M ! i)
                               \<and> m_month r \<le> m_month (?M ! i)}. 1 + ?h r)"
    unfolding ri by (rule df_ret_cum_nth[OF df_ret_monthly_distinct hs i])
  then have c1: "y_cumret a = Some (\<Prod>r\<in>?S. 1 + ?h r)"
    using ar keys m12 by simp
  have "(\<Prod>r\<in>?S. 1 + ?h r) = (\<Prod>r\<in>?S. 1 + monthly_mean df ?w ?y (m_month r))"
    by (rule prod.cong) auto
  also have "\<dots> = (\<Prod>m\<in>m_month ` ?S. 1 + monthly_mean df ?w ?y m)"
  proof -
    have inj: "inj_on m_month ?S"
    proof (rule inj_onI)
      fix p q assume p: "p \<in> ?S" and q: "q \<in> ?S" and e: "m_month p = m_month q"
      have inj3: "inj_on (\<lambda>r. (m_wficn r, m_year r, m_month r)) (set ?M)"
        using df_ret_monthly_distinct[of df] by (simp add: distinct_map)
      from p q e have same: "(m_wficn p, m_year p, m_month p) = (m_wficn q, m_year q, m_month q)"
        by simp
      from p q have "p \<in> set ?M" "q \<in> set ?M" by simp_all
      with inj3 same show "p = q" by (rule inj_onD[where f = "\<lambda>r. (m_wficn r, m_year r, m_month r)"])
    qed
    show ?thesis by (simp add: prod.reindex[OF inj] comp_def)
  qed
  also have "m_month ` ?S = {m \<in> months_available df ?w ?y. m \<le> 12}"
  proof -
    have "m \<in> m_month ` ?S \<longleftrightarrow> (?w, ?y, m) \<in> (\<lambda>r. (m_wficn r, m_year r, m_month r)) ` set ?M \<and> m \<le> 12" for m
      by force
    moreover have "m \<in> months_available df ?w ?y \<longleftrightarrow> (?w, ?y, m) \<in> (\<lambda>r. (c_wficn r, c_year r, c_month r)) ` set df" for m
      by (force simp: months_available_def)
    ultimately show ?thesis by (auto simp only: df_ret_monthly_key_set mem_Collect_eq)
  qed
  finally show "y_cumret a = Some (\<Prod>m\<in>{m \<in> months_available df (y_wficn a) (y_year a). m \<le> 12}.
                                1 + monthly_mean df (y_wficn a) (y_year a) m)"
    using c1 by simp
qed

lemma df_crsp_member:
  "x \<in> set (df_crsp crsp mflink1) \<longleftrightarrow>
     (\<exists>r\<in>set crsp. \<exists>l\<in>set mflink1. \<exists>n.
        l1_crsp_fundno l = crsp_fundno r \<and> l1_wficn l = Some n \<and>
        x = \<lparr>c_crsp_fundno = crsp_fundno r, c_caldt = caldt r, c_mret = fillna 0 (mret r),
             c_mtna = mtna r, c_wficn = n, c_year = dt_year (caldt r),
             c_month = dt_month (caldt r)\<rparr>)"
proof
  assume "x \<in> set (df_crsp crsp mflink1)"
  then obtain r w where rw: "(r, w) \<in> set (merge_mflink1 crsp mflink1)"
    and x: "x \<in> set (prepare_row (r, w))"
    by (auto simp: df_crsp_def)
  from rw obtain l where l: "r \<in> set crsp" "l \<in> set mflink1"
    "l1_crsp_fundno l = crsp_fundno r" "w = l1_wficn l"
    by (auto simp: merge_mflink1_def)
  from x obtain n where n: "w = Some n"
    and xr: "x = \<lparr>c_crsp_fundno = crsp_fundno r, c_caldt = caldt r, c_mret = fillna 0 (mret r),
             c_mtna = mtna r, c_wficn = n, c_year = dt_year (caldt r),
             c_month = dt_month (caldt r)\<rparr>"
    by (auto simp: prepare_row_def split: option.splits)
  from l n xr show "\<exists>r\<in>set crsp. \<exists>l\<in>set mflink1. \<exists>n.
        l1_crsp_fundno l = crsp_fundno r \<and> l1_wficn l = Some n \<and>
        x = \<lparr>c_crsp_fundno = crsp_fundno r, c_caldt = caldt r, c_mret = fillna 0 (mret r),
             c_mtna = mtna r, c_wficn = n, c_year = dt_year (caldt r),
             c_month = dt_month (caldt r)\<rparr>"
    by (intro bexI[of _ r] bexI[of _ l] exI[of _ n]) simp_all
next
  assume "\<exists>r\<in>set crsp. \<exists>l\<in>set mflink1. \<exists>n.
        l1_crsp_fundno l = crsp_fundno r \<and> l1_wficn l = Some n \<and>
        x = \<lparr>c_crsp_fundno = crsp_fundno r, c_caldt = caldt r, c_mret = fillna 0 (mret r),
             c_mtna = mtna r, c_wficn = n, c_year = dt_year (caldt r),
             c_month = dt_month (caldt r)\<rparr>"
  then obtain r l n where l: "r \<in> set crsp" "l \<in> set mflink1"
    "l1_crsp_fundno l = crsp_fundno r" "l1_wficn l = Some n"
    and xr: "x = \<lparr>c_crsp_fundno = crsp_fundno r, c_caldt = caldt r, c_mret = fillna 0 (mret r),
             c_mtna = mtna r, c_wficn = n, c_year = dt_year (caldt r),
             c_month = dt_month (caldt r)\<rparr>"
    by blast
  from l have "(r, Some n) \<in> set (merge_mflink1 crsp mflink1)"
    by (force simp: merge_mflink1_def)
  moreover have "x \<in> set (prepare_row (r, Some n))" by (simp add: prepare_row_def xr)
  ultimately show "x \<in> set (df_crsp crsp mflink1)"
    by (force simp: df_crsp_def)
qed

lemma df_crsp_mret_present:
  assumes "x \<in> set (df_crsp crsp mflink1)"
  shows "c_mret x \<noteq> None"
  using assms by (auto simp: df_crsp_member fillna_def split: option.splits)

lemma count_distinct_key:
  assumes "distinct (map k xs)"
  shows "length (filter (\<lambda>x. k x = v) xs) = (if v \<in> k ` set xs then 1 else 0)"
  using assms by (induction xs) auto

lemma df_ret_count:
  "length (filter (\<lambda>a. y_wficn a = w \<and> y_year a = y) (df_ret df)) =
     (if 12 \<in> months_available df w y then 1 else 0)"
proof -
  let ?M = "df_ret_monthly df"
  let ?k = "\<lambda>r. (m_wficn r, m_year r, m_month r)"
  have "length (filter (\<lambda>a. y_wficn a = w \<and> y_year a = y) (df_ret df)) =
        length (filter (\<lambda>r. r_wficn r = w \<and> r_year r = y \<and> r_month r = 12) (df_ret_cum ?M))"
    by (simp add: df_ret_def filter_map comp_def conj_commute conj_left_commute)
  also have "\<dots> = length (filter ((\<lambda>r. ?k r = (w, y, 12)) \<circ> snd) (zip [0..<length ?M] ?M))"
    by (simp add: df_ret_cum_def filter_map comp_def split_def)
  also have "\<dots> = length (filter (\<lambda>r. ?k r = (w, y, 12)) (map snd (zip [0..<length ?M] ?M)))"
    by (simp only: filter_map length_map)
  also have "\<dots> = length (filter (\<lambda>r. ?k r = (w, y, 12)) ?M)" by simp
  also have "\<dots> = (if (w, y, 12) \<in> ?k ` set ?M then 1 else 0)"
    by (rule count_distinct_key[OF df_ret_monthly_distinct])
  also have "(w, y, 12) \<in> ?k ` set ?M \<longleftrightarrow> 12 \<in> months_available df w y"
    by (force simp only: df_ret_monthly_key_set months_available_def set_map set_filter)
  finally show ?thesis .
qed

lemma sum_list_insort_key:
  fixes f :: "'a \<Rightarrow> real"
  shows "sum_list (map f (insort_key K x xs)) = f x + sum_list (map f xs)"
  by (induction xs) simp_all

lemma sum_list_sort_key:
  fixes f :: "'a \<Rightarrow> real"
  shows "sum_list (map f (sort_key K xs)) = sum_list (map f xs)"
  by (induction xs) (simp_all add: sum_list_insort_key)

lemma group_of_prepare_row:
  "map c_mret (filter (\<lambda>x. c_wficn x = w \<and> c_year x = y \<and> c_month x = m) (prepare_row p)) =
     (if snd p = Some w \<and> dt_year (caldt (fst p)) = y \<and> dt_month (caldt (fst p)) = m
      then [Some (filled_return (fst p))] else [])"
  by (cases p) (auto simp: prepare_row_def fillna_def filled_return_def split: option.splits)

lemma group_of_prepared:
  "map c_mret (filter (\<lambda>x. c_wficn x = w \<and> c_year x = y \<and> c_month x = m)
                      (concat (map prepare_row S))) =
   map (\<lambda>p. Some (filled_return (fst p)))
       (filter (\<lambda>p. snd p = Some w \<and> dt_year (caldt (fst p)) = y \<and> dt_month (caldt (fst p)) = m) S)"
  by (induction S) (simp_all add: group_of_prepare_row)

section \<open>Year-end TNA records and the filter steps\<close>

lemma df_tna_keys:
  "map (\<lambda>t. (t_wficn t, t_year t)) (df_tna df) =
     group_keys (\<lambda>r. (c_wficn r, c_year r)) (filter (\<lambda>r. c_month r = 12) df)"
  by (simp add: df_tna_def groupby_def comp_def split_def)

lemma df_tna_count:
  "length (filter (\<lambda>t. t_wficn t = w \<and> t_year t = y) (df_tna df)) =
     (if 12 \<in> months_available df w y then 1 else 0)"
proof -
  let ?k = "\<lambda>t. (t_wficn t, t_year t)"
  have d: "distinct (map ?k (df_tna df))"
    by (simp only: df_tna_keys distinct_group_keys)
  have "length (filter (\<lambda>t. t_wficn t = w \<and> t_year t = y) (df_tna df)) =
        length (filter (\<lambda>t. ?k t = (w, y)) (df_tna df))"
    by simp
  also have "\<dots> = (if (w, y) \<in> ?k ` set (df_tna df) then 1 else 0)"
    by (rule count_distinct_key[OF d])
  also have "?k ` set (df_tna df) = set (map ?k (df_tna df))" by simp
  also have "\<dots> = (\<lambda>r. (c_wficn r, c_year r)) ` set (filter (\<lambda>r. c_month r = 12) df)"
    by (simp only: df_tna_keys set_group_keys)
  also have "(w, y) \<in> (\<lambda>r. (c_wficn r, c_year r)) ` set (filter (\<lambda>r. c_month r = 12) df)
              \<longleftrightarrow> 12 \<in> months_available df w y"
    by (force simp: months_available_def)
  finally show ?thesis .
qed

lemma df_tna_value:
  assumes "t \<in> set (df_tna df)"
  shows "t_crsp_tna t = Some (december_tna df (t_wficn t) (t_year t))"
    and "12 \<in> months_available df (t_wficn t) (t_year t)"
proof -
  from assms obtain x where x: "x \<in> set df" "c_month x = 12"
    and t: "t = \<lparr>t_wficn = c_wficn x, t_year = c_year x,
           t_crsp_tna = sum_skipna (map c_mtna
             (filter (\<lambda>r. c_wficn r = c_wficn x \<and> c_year r = c_year x)
                (filter (\<lambda>r. c_month r = 12) df)))\<rparr>"
    unfolding df_tna_member by blast
  show "t_crsp_tna t = Some (december_tna df (t_wficn t) (t_year t))"
    by (simp add: t sum_skipna_def december_tna_def december_tna_values_def
        conj_commute conj_left_commute)
  show "12 \<in> months_available df (t_wficn t) (t_year t)"
    using x by (force simp: t months_available_def)
qed

lemma joined_tna_row:
  assumes "j \<in> set (joined crsp mflink1 s12 mflink2)"
  shows "\<exists>t\<in>set (df_tna (df_crsp crsp mflink1)).
           t_wficn t = wficn j \<and> t_year t = year j \<and> t_crsp_tna t = crsp_tna j"
proof -
  from assms obtain c where c: "c \<in> set (df_crsp_clean (df_crsp crsp mflink1))"
    and j: "wficn j = cc_wficn c" "year j = cc_year c" "crsp_tna j = cc_crsp_tna c"
    by (auto simp: joined_def df_combo_member)
  from c obtain t where "t \<in> set (df_tna (df_crsp crsp mflink1))" "cc_wficn c = t_wficn t"
    "cc_year c = t_year t" "cc_crsp_tna c = t_crsp_tna t"
    by (auto simp: df_crsp_clean_member)
  with j show ?thesis by auto
qed

lemma joined_tna_value:
  assumes "j \<in> set (joined crsp mflink1 s12 mflink2)"
  shows "crsp_tna j = Some (december_tna (df_crsp crsp mflink1) (wficn j) (year j))"
    and "12 \<in> months_available (df_crsp crsp mflink1) (wficn j) (year j)"
  using joined_tna_row[OF assms] df_tna_value by force+

lemma exists_of_count_one:
  assumes "length (filter P xs) = 1"
  shows "\<exists>x\<in>set xs. P x"
proof -
  from assms have "filter P xs \<noteq> []" by auto
  then show ?thesis by (auto simp: filter_empty_conv)
qed

lemma joined_present:
  assumes dec: "12 \<in> months_available (df_crsp crsp mflink1) w y"
    and q: "q \<in> set (df_eq (df_s12 s12 mflink2))" "q_wficn q = w" "q_year q = y"
  shows "\<exists>j\<in>set (joined crsp mflink1 s12 mflink2). wficn j = w \<and> year j = y"
proof -
  let ?df = "df_crsp crsp mflink1"
  from dec have "length (filter (\<lambda>t. t_wficn t = w \<and> t_year t = y) (df_tna ?df)) = 1"
    by (simp add: df_tna_count)
  then obtain t where t: "t \<in> set (df_tna ?df)" "t_wficn t = w" "t_year t = y"
    using exists_of_count_one by force
  from dec have "length (filter (\<lambda>a. y_wficn a = w \<and> y_year a = y) (df_ret ?df)) = 1"
    by (simp add: df_ret_count)
  then obtain a where a: "a \<in> set (df_ret ?df)" "y_wficn a = w" "y_year a = y"
    using exists_of_count_one by force
  let ?c = "\<lparr>cc_wficn = t_wficn t, cc_year = t_year t,
             cc_crsp_tna = t_crsp_tna t, cc_yret = y_yret a\<rparr>"
  have c: "?c \<in> set (df_crsp_clean ?df)"
    unfolding df_crsp_clean_member using t a by force
  let ?j = "\<lparr>wficn = cc_wficn ?c, year = cc_year ?c, crsp_tna = cc_crsp_tna ?c,
             yret = cc_yret ?c, fy_assets = q_assets q, fy_useq_tna_k = q_useq_tna_k q\<rparr>"
  have "?j \<in> set (df_combo (df_crsp_clean ?df) (df_eq (df_s12 s12 mflink2)))"
    unfolding df_combo_member using c q t by force
  then have "?j \<in> set (joined crsp mflink1 s12 mflink2)" by (simp add: joined_def)
  moreover have "wficn ?j = w \<and> year ?j = y" using t by simp
  ultimately show ?thesis by blast
qed

lemma universe_tna:
  assumes "r \<in> set (universe crsp mflink1 s12 mflink2)"
  shows "crsp_tna r = Some (december_tna (df_crsp crsp mflink1) (wficn r) (year r))"
    and "1 < december_tna (df_crsp crsp mflink1) (wficn r) (year r)"
proof -
  from assms obtain j where j: "j \<in> set (joined crsp mflink1 s12 mflink2)"
    and r: "r = add_eq_ratios (add_tna_ratio j)"
    and ja: "j \<in> set (filter_tna (joined crsp mflink1 s12 mflink2))"
    by (rule universe_origin)
  from ja obtain c where c: "crsp_tna j = Some c" "1 < c" by (auto simp: filter_tna_member)
  have v: "crsp_tna j = Some (december_tna (df_crsp crsp mflink1) (wficn j) (year j))"
    by (rule joined_tna_value(1)[OF j])
  show "crsp_tna r = Some (december_tna (df_crsp crsp mflink1) (wficn r) (year r))"
    using v by (simp add: r add_eq_ratios_simps add_tna_ratio_simps)
  show "1 < december_tna (df_crsp crsp mflink1) (wficn r) (year r)"
    using v c by (simp add: r add_eq_ratios_simps add_tna_ratio_simps)
qed

lemma filter_tna_ratio_truncate:
  "map fund_year.truncate (filter_tna_ratio df) =
     filter (\<lambda>r. fgt (tna_ratio (add_tna_ratio r)) (1 / 2) \<and> flt (tna_ratio (add_tna_ratio r)) 2) df"
  by (induction df) (simp_all add: filter_tna_ratio_def add_tna_ratio_simps)

lemma filter_eq_ratio_truncate:
  "map fund_year_tr.truncate (filter_eq_ratio df) =
     filter (\<lambda>r. between (eq_ratio_1 (add_eq_ratios r)) (8 / 10) (105 / 100)
                \<or> between (eq_ratio_2 (add_eq_ratios r)) (8 / 10) (105 / 100)) df"
  by (induction df) (simp_all add: filter_eq_ratio_def add_eq_ratios_simps)

lemma filter_keeps_all: "filter P xs = xs \<longleftrightarrow> list_all P xs"
  by (simp add: filter_id_conv list_all_iff)

section \<open>Identifier resolution\<close>

lemma concat_map_filter_drop:
  assumes "\<forall>x\<in>set xs. \<not> P x \<longrightarrow> f x = []"
  shows "concat (map f (filter P xs)) = concat (map f xs)"
  using assms by (induction xs) auto

lemma merge_mflink1_matched:
  "merge_mflink1 (filter (has_link mflink1) crsp) mflink1 = merge_mflink1 crsp mflink1"
  unfolding merge_mflink1_def
  by (rule concat_map_filter_drop) (auto simp: has_link_def filter_empty_conv)

lemma df_crsp_matched:
  "df_crsp (filter (has_link mflink1) crsp) mflink1 = df_crsp crsp mflink1"
  by (simp add: df_crsp_def merge_mflink1_matched)

lemma df_s12_linked:
  "df_s12 (filter (\<lambda>h. fund_level_id mflink2 h \<noteq> None) s12) mflink2 = df_s12 s12 mflink2"
proof -
  let ?R = "sort_key (\<lambda>r. (l2_fdate r, l2_fundno r)) mflink2"
  let ?K = "\<lambda>l. (fdate l, fundno l)"
  have "df_s12 (filter (\<lambda>h. fund_level_id mflink2 h \<noteq> None) s12) mflink2 =
        concat (map (link_row ?R) (filter (\<lambda>h. fund_level_id mflink2 h \<noteq> None) (sort_key ?K s12)))"
    by (simp only: df_s12_def filter_sort)
  also have "\<dots> = concat (map (link_row ?R) (sort_key ?K s12))"
    by (rule concat_map_filter_drop) (simp add: fund_level_id_def link_row_def)
  finally show ?thesis by (simp only: df_s12_def)
qed

lemma df_s12_member:
  assumes "x \<in> set (df_s12 s12 mflink2)"
  shows "\<exists>h\<in>set s12. fund_level_id mflink2 h = Some (s_wficn x) \<and> fundno h = s_fundno x
                      \<and> fdate h = s_fdate x"
proof -
  from assms obtain h where h: "h \<in> set s12"
    and x: "x \<in> set (link_row (sort_key (\<lambda>r. (l2_fdate r, l2_fundno r)) mflink2) h)"
    by (auto simp: df_s12_def)
  from x have "fund_level_id mflink2 h = Some (s_wficn x) \<and> fundno h = s_fundno x \<and> fdate h = s_fdate x"
    by (auto simp: link_row_def fund_level_id_def split: option.splits)
  with h show ?thesis by blast
qed

lemma no_link_row_no_id:
  assumes "\<forall>l\<in>set mflink2. l2_fundno l \<noteq> fundno h"
  shows "fund_level_id mflink2 h = None"
proof -
  have "filter (\<lambda>r. l2_fundno r = fundno h) (sort_key (\<lambda>r. (l2_fdate r, l2_fundno r)) mflink2) = []"
    using assms by (simp add: filter_empty_conv)
  then show ?thesis by (simp add: fund_level_id_def asof_nearest_def)
qed

section \<open>The example run, stage by stage\<close>

lemma ex_df_crsp:
  "df_crsp ex_crsp ex_mflink1 =
     [\<lparr>c_crsp_fundno = 1, c_caldt = (2000, 10, 31), c_mret = Some (1 / 100), c_mtna = Some 90,
       c_wficn = 7, c_year = 2000, c_month = 10\<rparr>,
      \<lparr>c_crsp_fundno = 1, c_caldt = (2000, 11, 30), c_mret = Some (- 4 / 100), c_mtna = Some 95,
       c_wficn = 7, c_year = 2000, c_month = 11\<rparr>,
      \<lparr>c_crsp_fundno = 2, c_caldt = (2000, 11, 30), c_mret = Some 0, c_mtna = None,
       c_wficn = 7, c_year = 2000, c_month = 11\<rparr>,
      \<lparr>c_crsp_fundno = 4, c_caldt = (2000, 11, 30), c_mret = Some (1 / 10), c_mtna = Some 20,
       c_wficn = 9, c_year = 2000, c_month = 11\<rparr>,
      \<lparr>c_crsp_fundno = 1, c_caldt = (2000, 12, 31), c_mret = Some (2 / 100), c_mtna = Some 100,
       c_wficn = 7, c_year = 2000, c_month = 12\<rparr>,
      \<lparr>c_crsp_fundno = 2, c_caldt = (2000, 12, 31), c_mret = Some (4 / 100), c_mtna = Some 50,
       c_wficn = 7, c_year = 2000, c_month = 12\<rparr>,
      \<lparr>c_crsp_fundno = 5, c_caldt = (2000, 12, 31), c_mret = Some (5 / 100), c_mtna = Some 200,
       c_wficn = 8, c_year = 2000, c_month = 12\<rparr>]"
  by (simp add: ex_crsp_def ex_mflink1_def df_crsp_def merge_mflink1_def prepare_row_def
      nan_last_def dt_year_def dt_month_def fillna_def)

lemma ex_df_ret_monthly:
  "df_ret_monthly (df_crsp ex_crsp ex_mflink1) =
     [\<lparr>m_wficn = 7, m_year = 2000, m_month = 10, m_mret = Some (1 / 100)\<rparr>,
      \<lparr>m_wficn = 7, m_year = 2000, m_month = 11, m_mret = Some (- 2 / 100)\<rparr>,
      \<lparr>m_wficn = 7, m_year = 2000, m_month = 12, m_mret = Some (3 / 100)\<rparr>,
      \<lparr>m_wficn = 8, m_year = 2000, m_month = 12, m_mret = Some (5 / 100)\<rparr>,
      \<lparr>m_wficn = 9, m_year = 2000, m_month = 11, m_mret = Some (1 / 10)\<rparr>]"
  by (simp add: ex_df_crsp df_ret_monthly_def groupby_def group_keys_def mean_def)

lemma ex_df_ret:
  "df_ret (df_crsp ex_crsp ex_mflink1) =
     [\<lparr>y_wficn = 7, y_year = 2000, y_month = 12, y_cumret = Some (509747 / 500000),
       y_yret = Some (9747 / 500000)\<rparr>,
      \<lparr>y_wficn = 8, y_year = 2000, y_month = 12, y_cumret = Some (21 / 20),
       y_yret = Some (1 / 20)\<rparr>]"
  by (simp add: df_ret_def ex_df_ret_monthly df_ret_cum_def cumret_by_index_def mult_of_def
      fadd_def fsub_def)

lemma ex_df_tna:
  "df_tna (df_crsp ex_crsp ex_mflink1) =
     [\<lparr>t_wficn = 7, t_year = 2000, t_crsp_tna = Some 150\<rparr>,
      \<lparr>t_wficn = 8, t_year = 2000, t_crsp_tna = Some 200\<rparr>]"
  by (simp add: ex_df_crsp df_tna_def groupby_def group_keys_def sum_skipna_def)

lemma ex_df_crsp_clean:
  "df_crsp_clean (df_crsp ex_crsp ex_mflink1) =
     [\<lparr>cc_wficn = 7, cc_year = 2000, cc_crsp_tna = Some 150, cc_yret = Some (9747 / 500000)\<rparr>,
      \<lparr>cc_wficn = 8, cc_year = 2000, cc_crsp_tna = Some 200, cc_yret = Some (1 / 20)\<rparr>]"
  by (simp add: df_crsp_clean_def ex_df_tna ex_df_ret)

lemma ex_df_s12:
  "df_s12 ex_s12 ex_mflink2 =
     [\<lparr>s_fundno = 5, s_fdate = (2000, 6, 30), s_assets = Some 14000, s_useq_tna_k = Some 100000,
       s_year = 2000, s_wficn = 7\<rparr>,
      \<lparr>s_fundno = 5, s_fdate = (2000, 12, 31), s_assets = Some 15000, s_useq_tna_k = Some 80000,
       s_year = 2000, s_wficn = 7\<rparr>,
      \<lparr>s_fundno = 5, s_fdate = (2000, 12, 31), s_assets = Some 15000, s_useq_tna_k = Some 55000,
       s_year = 2000, s_wficn = 7\<rparr>,
      \<lparr>s_fundno = 7, s_fdate = (2000, 12, 31), s_assets = None, s_useq_tna_k = Some 1000,
       s_year = 2000, s_wficn = 8\<rparr>]"
  by (simp add: ex_s12_def ex_mflink2_def df_s12_def link_row_def asof_nearest_def
      days_from_civil_def dt_year_def)

lemma ex_df_eq:
  "df_eq (df_s12 ex_s12 ex_mflink2) =
     [\<lparr>q_wficn = 7, q_year = 2000, q_assets = Some 15000, q_useq_tna_k = Some 135000\<rparr>,
      \<lparr>q_wficn = 8, q_year = 2000, q_assets = None, q_useq_tna_k = Some 1000\<rparr>]"
  by (simp add: ex_df_s12 df_eq_def df_eq_reports_def groupby_def group_keys_def
      assets_filled_def fillna_def sum_skipna_def last_skipna_def)

lemma ex_joined:
  "joined ex_crsp ex_mflink1 ex_s12 ex_mflink2 =
     [\<lparr>wficn = 7, year = 2000, crsp_tna = Some 150, yret = Some (9747 / 500000),
       fy_assets = Some 15000, fy_useq_tna_k = Some 135000\<rparr>,
      \<lparr>wficn = 8, year = 2000, crsp_tna = Some 200, yret = Some (1 / 20),
       fy_assets = None, fy_useq_tna_k = Some 1000\<rparr>]"
  by (simp add: joined_def ex_df_crsp_clean ex_df_eq df_combo_def)

lemma ex_filter_tna:
  "filter_tna (joined ex_crsp ex_mflink1 ex_s12 ex_mflink2) =
     [\<lparr>wficn = 7, year = 2000, crsp_tna = Some 150, yret = Some (9747 / 500000),
       fy_assets = Some 15000, fy_useq_tna_k = Some 135000\<rparr>,
      \<lparr>wficn = 8, year = 2000, crsp_tna = Some 200, yret = Some (1 / 20),
       fy_assets = None, fy_useq_tna_k = Some 1000\<rparr>]"
  by (simp add: ex_joined filter_tna_def fgt_def)

lemma ex_filter_tna_ratio:
  "filter_tna_ratio (filter_tna (joined ex_crsp ex_mflink1 ex_s12 ex_mflink2)) =
     [\<lparr>wficn = 7, year = 2000, crsp_tna = Some 150, yret = Some (9747 / 500000),
       fy_assets = Some 15000, fy_useq_tna_k = Some 135000, tna_ratio = Some 1\<rparr>,
      \<lparr>wficn = 8, year = 2000, crsp_tna = Some 200, yret = Some (1 / 20),
       fy_assets = None, fy_useq_tna_k = Some 1000, tna_ratio = Some 1\<rparr>]"
  by (simp add: ex_joined filter_tna_def filter_tna_ratio_def ratio_defs)

lemma ex_universe:
  "universe ex_crsp ex_mflink1 ex_s12 ex_mflink2 = [ex_universe_row, ex_universe_row_na]"
  by (simp add: universe_def ex_filter_tna_ratio filter_eq_ratio_def ratio_defs
      ex_universe_row_def ex_universe_row_na_def)

lemma ex_months_fund7: "months_available (df_crsp ex_crsp ex_mflink1) 7 2000 = {10, 11, 12}"
  by (auto simp: ex_df_crsp months_available_def)

lemma ex_months_fund9: "months_available (df_crsp ex_crsp ex_mflink1) 9 2000 = {11}"
  by (auto simp: ex_df_crsp months_available_def)

lemma ex_monthly_means:
  "monthly_mean (df_crsp ex_crsp ex_mflink1) 7 2000 10 = 1 / 100"
  "monthly_mean (df_crsp ex_crsp ex_mflink1) 7 2000 11 = - 2 / 100"
  "monthly_mean (df_crsp ex_crsp ex_mflink1) 7 2000 12 = 3 / 100"
  by (simp_all add: ex_df_crsp monthly_mean_def)

lemma ex2_df_crsp:
  "df_crsp ex2_crsp ex2_mflink1 =
     [\<lparr>c_crsp_fundno = 1, c_caldt = (2001, 12, 31), c_mret = Some (2 / 100), c_mtna = Some 150,
       c_wficn = 7, c_year = 2001, c_month = 12\<rparr>,
      \<lparr>c_crsp_fundno = 2, c_caldt = (2001, 12, 31), c_mret = Some (1 / 100), c_mtna = Some 500,
       c_wficn = 8, c_year = 2001, c_month = 12\<rparr>,
      \<lparr>c_crsp_fundno = 3, c_caldt = (2001, 12, 31), c_mret = Some (3 / 100), c_mtna = None,
       c_wficn = 9, c_year = 2001, c_month = 12\<rparr>]"
  by (simp add: ex2_crsp_def ex2_mflink1_def df_crsp_def merge_mflink1_def prepare_row_def
      nan_last_def dt_year_def dt_month_def fillna_def)

lemma ex2_df_ret_monthly:
  "df_ret_monthly (df_crsp ex2_crsp ex2_mflink1) =
     [\<lparr>m_wficn = 7, m_year = 2001, m_month = 12, m_mret = Some (2 / 100)\<rparr>,
      \<lparr>m_wficn = 8, m_year = 2001, m_month = 12, m_mret = Some (1 / 100)\<rparr>,
      \<lparr>m_wficn = 9, m_year = 2001, m_month = 12, m_mret = Some (3 / 100)\<rparr>]"
  by (simp add: ex2_df_crsp df_ret_monthly_def groupby_def group_keys_def mean_def)

lemma ex2_df_ret:
  "df_ret (df_crsp ex2_crsp ex2_mflink1) =
     [\<lparr>y_wficn = 7, y_year = 2001, y_month = 12, y_cumret = Some (51 / 50),
       y_yret = Some (1 / 50)\<rparr>,
      \<lparr>y_wficn = 8, y_year = 2001, y_month = 12, y_cumret = Some (101 / 100),
       y_yret = Some (1 / 100)\<rparr>,
      \<lparr>y_wficn = 9, y_year = 2001, y_month = 12, y_cumret = Some (103 / 100),
       y_yret = Some (3 / 100)\<rparr>]"
  by (simp add: df_ret_def ex2_df_ret_monthly df_ret_cum_def cumret_by_index_def mult_of_def
      fadd_def fsub_def)

lemma ex2_df_tna:
  "df_tna (df_crsp ex2_crsp ex2_mflink1) =
     [\<lparr>t_wficn = 7, t_year = 2001, t_crsp_tna = Some 150\<rparr>,
      \<lparr>t_wficn = 8, t_year = 2001, t_crsp_tna = Some 500\<rparr>,
      \<lparr>t_wficn = 9, t_year = 2001, t_crsp_tna = Some 0\<rparr>]"
  by (simp add: ex2_df_crsp df_tna_def groupby_def group_keys_def sum_skipna_def)

lemma ex2_df_crsp_clean:
  "df_crsp_clean (df_crsp ex2_crsp ex2_mflink1) =
     [\<lparr>cc_wficn = 7, cc_year = 2001, cc_crsp_tna = Some 150, cc_yret = Some (1 / 50)\<rparr>,
      \<lparr>cc_wficn = 8, cc_year = 2001, cc_crsp_tna = Some 500, cc_yret = Some (1 / 100)\<rparr>,
      \<lparr>cc_wficn = 9, cc_year = 2001, cc_crsp_tna = Some 0, cc_yret = Some (3 / 100)\<rparr>]"
  by (simp add: df_crsp_clean_def ex2_df_tna ex2_df_ret)

lemma ex2_df_s12:
  "df_s12 ex2_s12 ex2_mflink2 =
     [\<lparr>s_fundno = 5, s_fdate = (2001, 12, 31), s_assets = Some 12000, s_useq_tna_k = Some 135000,
       s_year = 2001, s_wficn = 7\<rparr>,
      \<lparr>s_fundno = 6, s_fdate = (2001, 12, 31), s_assets = Some 10000, s_useq_tna_k = Some 90000,
       s_year = 2001, s_wficn = 8\<rparr>,
      \<lparr>s_fundno = 7, s_fdate = (2001, 12, 31), s_assets = Some 100, s_useq_tna_k = Some 900,
       s_year = 2001, s_wficn = 9\<rparr>]"
  by (simp add: ex2_s12_def ex2_mflink2_def df_s12_def link_row_def asof_nearest_def
      days_from_civil_def dt_year_def)

lemma ex2_df_eq:
  "df_eq (df_s12 ex2_s12 ex2_mflink2) =
     [\<lparr>q_wficn = 7, q_year = 2001, q_assets = Some 12000, q_useq_tna_k = Some 135000\<rparr>,
      \<lparr>q_wficn = 8, q_year = 2001, q_assets = Some 10000, q_useq_tna_k = Some 90000\<rparr>,
      \<lparr>q_wficn = 9, q_year = 2001, q_assets = Some 100, q_useq_tna_k = Some 900\<rparr>]"
  by (simp add: ex2_df_s12 df_eq_def df_eq_reports_def groupby_def group_keys_def
      assets_filled_def fillna_def sum_skipna_def last_skipna_def)

lemma ex2_joined:
  "joined ex2_crsp ex2_mflink1 ex2_s12 ex2_mflink2 = [ex2_fund7, ex2_fund8, ex2_fund9]"
  by (simp add: joined_def ex2_df_crsp_clean ex2_df_eq df_combo_def
      ex2_fund7_def ex2_fund8_def ex2_fund9_def)

lemma ex2_filter_tna:
  "filter_tna (joined ex2_crsp ex2_mflink1 ex2_s12 ex2_mflink2) = [ex2_fund7, ex2_fund8]"
  by (simp add: ex2_joined filter_tna_def fgt_def ex2_fund7_def ex2_fund8_def ex2_fund9_def)

lemma ex2_filter_tna_ratio:
  "filter_tna_ratio (filter_tna (joined ex2_crsp ex2_mflink1 ex2_s12 ex2_mflink2)) =
     [add_tna_ratio ex2_fund7]"
  by (simp add: ex2_joined filter_tna_def filter_tna_ratio_def ratio_defs
      ex2_fund7_def ex2_fund8_def ex2_fund9_def)

lemma ex2_universe:
  "universe ex2_crsp ex2_mflink1 ex2_s12 ex2_mflink2 =
     [add_eq_ratios (add_tna_ratio ex2_fund7)]"
  by (simp add: universe_def ex2_joined filter_tna_def filter_tna_ratio_def filter_eq_ratio_def
      ratio_defs ex2_fund7_def ex2_fund8_def ex2_fund9_def)

section \<open>The universe filters\<close>

text \<open>
  C2. Every record of the final table, i.e. every record left by the equity-ratio filter,
  has \<open>eq_ratio_1\<close> in [0.8, 1.05] or \<open>eq_ratio_2\<close> in [0.8, 1.05], where \<open>eq_ratio_1\<close>
  is the equity-holdings value (in thousands) against CRSP TNA (in millions) and
  \<open>eq_ratio_2\<close> is the equity-holdings value against the holdings-reported assets (in ten
  thousands), and 1 when the assets are missing.
\<close>

theorem equity_ratio_filter_bounds:
  assumes "r \<in> set (universe crsp mflink1 s12 mflink2)"
  shows "((\<exists>v. eq_ratio_1 r = Some v \<and> 8 / 10 \<le> v \<and> v \<le> 105 / 100) \<or>
          (\<exists>v. eq_ratio_2 r = Some v \<and> 8 / 10 \<le> v \<and> v \<le> 105 / 100))
       \<and> (\<exists>u c. fy_useq_tna_k r = Some u \<and> crsp_tna r = Some c \<and> c \<noteq> 0 \<and>
              eq_ratio_1 r = Some (u * 1000 / (c * 1000000)) \<and>
              (fy_assets r = None \<longrightarrow> eq_ratio_2 r = Some 1) \<and>
              (\<forall>a. fy_assets r = Some a \<longrightarrow>
                     a \<noteq> 0 \<and> eq_ratio_2 r = Some (u * 1000 / (a * 10000))))"
proof -
  from assms obtain j where j: "j \<in> set (joined crsp mflink1 s12 mflink2)"
    and r: "r = add_eq_ratios (add_tna_ratio j)"
    and ja: "j \<in> set (filter_tna (joined crsp mflink1 s12 mflink2))"
    by (rule universe_origin)
  from ja obtain c where c: "crsp_tna j = Some c" "1 < c" by (auto simp: filter_tna_member)
  from joined_cells(3)[OF j] obtain u where u: "fy_useq_tna_k j = Some u" by auto
  have nz: "fy_assets j \<noteq> Some 0" by (rule joined_cells(2)[OF j])
  have bounds: "(\<exists>v. eq_ratio_1 r = Some v \<and> 8 / 10 \<le> v \<and> v \<le> 105 / 100) \<or>
          (\<exists>v. eq_ratio_2 r = Some v \<and> 8 / 10 \<le> v \<and> v \<le> 105 / 100)"
    using assms unfolding universe_def filter_eq_ratio_member by blast
  have e1: "eq_ratio_1 r = Some (u * 1000 / (c * 1000000))"
    using c u by (simp add: r add_eq_ratios_simps add_tna_ratio_simps eq_ratio_1_quotient_def
        fdiv_def cell_def fmul_def)
  have e2n: "fy_assets r = None \<longrightarrow> eq_ratio_2 r = Some 1"
    by (simp add: r add_eq_ratios_simps add_tna_ratio_simps isnull_def)
  have e2s: "\<forall>a. fy_assets r = Some a \<longrightarrow> a \<noteq> 0 \<and> eq_ratio_2 r = Some (u * 1000 / (a * 10000))"
    using nz u by (auto simp: r add_eq_ratios_simps add_tna_ratio_simps isnull_def
        eq_ratio_2_quotient_def fdiv_def cell_def fmul_def)
  from c u have "fy_useq_tna_k r = Some u" "crsp_tna r = Some c" "c \<noteq> 0"
    by (simp_all add: r add_eq_ratios_simps add_tna_ratio_simps)
  with e1 e2n e2s
  have "\<exists>u c. fy_useq_tna_k r = Some u \<and> crsp_tna r = Some c \<and> c \<noteq> 0 \<and>
              eq_ratio_1 r = Some (u * 1000 / (c * 1000000)) \<and>
              (fy_assets r = None \<longrightarrow> eq_ratio_2 r = Some 1) \<and>
              (\<forall>a. fy_assets r = Some a \<longrightarrow>
                     a \<noteq> 0 \<and> eq_ratio_2 r = Some (u * 1000 / (a * 10000)))"
    by (intro exI[of _ u] exI[of _ c]) simp
  with bounds show ?thesis by (rule conjI)
qed

theorem equity_ratio_filter_bounds_witness:
  "ex_universe_row \<in> set (universe ex_crsp ex_mflink1 ex_s12 ex_mflink2)
   \<and> eq_ratio_1 ex_universe_row = Some (135000 * 1000 / (150 * 1000000))
   \<and> eq_ratio_2 ex_universe_row = Some (135000 * 1000 / (15000 * 10000))
   \<and> ((\<exists>v. eq_ratio_1 ex_universe_row = Some v \<and> 8 / 10 \<le> v \<and> v \<le> 105 / 100) \<or>
      (\<exists>v. eq_ratio_2 ex_universe_row = Some v \<and> 8 / 10 \<le> v \<and> v \<le> 105 / 100))
   \<and> ex_universe_row_na \<in> set (universe ex_crsp ex_mflink1 ex_s12 ex_mflink2)
   \<and> fy_assets ex_universe_row_na = None
   \<and> eq_ratio_2 ex_universe_row_na = Some 1"
proof -
  have h: "ex_universe_row \<in> set (universe ex_crsp ex_mflink1 ex_s12 ex_mflink2)"
    by (simp add: ex_universe)
  have "fy_useq_tna_k ex_universe_row = Some 135000" "crsp_tna ex_universe_row = Some 150"
    "fy_assets ex_universe_row = Some 15000"
    by (simp_all add: ex_universe_row_def)
  with equity_ratio_filter_bounds [OF h] h
  have first: "ex_universe_row \<in> set (universe ex_crsp ex_mflink1 ex_s12 ex_mflink2)
   \<and> eq_ratio_1 ex_universe_row = Some (135000 * 1000 / (150 * 1000000))
   \<and> eq_ratio_2 ex_universe_row = Some (135000 * 1000 / (15000 * 10000))
   \<and> ((\<exists>v. eq_ratio_1 ex_universe_row = Some v \<and> 8 / 10 \<le> v \<and> v \<le> 105 / 100) \<or>
      (\<exists>v. eq_ratio_2 ex_universe_row = Some v \<and> 8 / 10 \<le> v \<and> v \<le> 105 / 100))"
    by auto
  have h': "ex_universe_row_na \<in> set (universe ex_crsp ex_mflink1 ex_s12 ex_mflink2)"
    by (simp add: ex_universe)
  have na: "fy_assets ex_universe_row_na = None" by (simp add: ex_universe_row_na_def)
  with equity_ratio_filter_bounds [OF h'] have "eq_ratio_2 ex_universe_row_na = Some 1"
    by blast
  with first h' na show ?thesis by blast
qed

text \<open>
  C3. For every joined fund-year record, \<open>tna_ratio\<close> is exactly 1 when the
  holdings-reported assets are missing, and (CRSP TNA * 1e6) / (assets * 1e4) otherwise.
  Every record that survives the TNA-ratio filter is a record that passed the TNA filter
  with this column added, so its own \<open>tna_ratio\<close> is 1 or the quotient of its own CRSP TNA
  and assets, and it has 0.5 < \<open>tna_ratio\<close> < 2, both inequalities strict; a record that
  passed the TNA filter survives exactly when its ratio lies strictly between the bounds.
\<close>

theorem tna_ratio_value_and_bounds:
  "(\<forall>j\<in>set (joined crsp mflink1 s12 mflink2).
      (fy_assets j = None \<longrightarrow> tna_ratio (add_tna_ratio j) = Some 1) \<and>
      (\<forall>a. fy_assets j = Some a \<longrightarrow>
           a \<noteq> 0 \<and> (\<exists>c. crsp_tna j = Some c \<and>
                        tna_ratio (add_tna_ratio j) = Some (c * 1000000 / (a * 10000)))))
   \<and> (\<forall>r\<in>set (filter_tna_ratio (filter_tna (joined crsp mflink1 s12 mflink2))).
        fund_year.truncate r \<in> set (filter_tna (joined crsp mflink1 s12 mflink2)) \<and>
        r = add_tna_ratio (fund_year.truncate r) \<and>
        (fy_assets r = None \<longrightarrow> tna_ratio r = Some 1) \<and>
        (\<forall>a. fy_assets r = Some a \<longrightarrow>
             a \<noteq> 0 \<and> (\<exists>c. crsp_tna r = Some c \<and>
                          tna_ratio r = Some (c * 1000000 / (a * 10000)))) \<and>
        (\<exists>v. tna_ratio r = Some v \<and> 1 / 2 < v \<and> v < 2))
   \<and> (\<forall>j\<in>set (filter_tna (joined crsp mflink1 s12 mflink2)).
        add_tna_ratio j \<in> set (filter_tna_ratio (filter_tna (joined crsp mflink1 s12 mflink2)))
        \<longleftrightarrow> (\<exists>v. tna_ratio (add_tna_ratio j) = Some v \<and> 1 / 2 < v \<and> v < 2))"
proof -
  let ?J = "joined crsp mflink1 s12 mflink2"
  have val: "(fy_assets j = None \<longrightarrow> tna_ratio (add_tna_ratio j) = Some 1) \<and>
      (\<forall>a. fy_assets j = Some a \<longrightarrow>
           a \<noteq> 0 \<and> (\<exists>c. crsp_tna j = Some c \<and>
                        tna_ratio (add_tna_ratio j) = Some (c * 1000000 / (a * 10000))))"
    if j: "j \<in> set ?J" for j
  proof -
    from joined_cells(1)[OF j] obtain c where c: "crsp_tna j = Some c" by auto
    have nz: "fy_assets j \<noteq> Some 0" by (rule joined_cells(2)[OF j])
    have "fy_assets j = None \<longrightarrow> tna_ratio (add_tna_ratio j) = Some 1"
      by (simp add: add_tna_ratio_simps isnull_def)
    moreover have "\<forall>a. fy_assets j = Some a \<longrightarrow>
           a \<noteq> 0 \<and> (\<exists>c. crsp_tna j = Some c \<and>
                        tna_ratio (add_tna_ratio j) = Some (c * 1000000 / (a * 10000)))"
      using nz c by (auto simp: add_tna_ratio_simps isnull_def tna_ratio_quotient_def
          fdiv_def then_div_def cell_def fmul_def)
    ultimately show ?thesis by (rule conjI)
  qed
  have surv: "fund_year.truncate r \<in> set (filter_tna ?J) \<and>
        r = add_tna_ratio (fund_year.truncate r) \<and>
        (fy_assets r = None \<longrightarrow> tna_ratio r = Some 1) \<and>
        (\<forall>a. fy_assets r = Some a \<longrightarrow>
             a \<noteq> 0 \<and> (\<exists>c. crsp_tna r = Some c \<and>
                          tna_ratio r = Some (c * 1000000 / (a * 10000)))) \<and>
        (\<exists>v. tna_ratio r = Some v \<and> 1 / 2 < v \<and> v < 2)"
    if r: "r \<in> set (filter_tna_ratio (filter_tna ?J))" for r
  proof -
    from r obtain j where j: "j \<in> set (filter_tna ?J)" and rj: "r = add_tna_ratio j"
      and b: "\<exists>v. tna_ratio r = Some v \<and> 1 / 2 < v \<and> v < 2"
      unfolding filter_tna_ratio_member by blast
    from j have jj: "j \<in> set ?J" by (simp add: filter_tna_member)
    have tr: "fund_year.truncate r = j" by (simp add: rj add_tna_ratio_simps)
    note v = val[OF jj]
    have "fy_assets r = fy_assets j" "crsp_tna r = crsp_tna j"
      by (simp_all add: rj add_tna_ratio_simps)
    with v rj have "(fy_assets r = None \<longrightarrow> tna_ratio r = Some 1) \<and>
        (\<forall>a. fy_assets r = Some a \<longrightarrow>
             a \<noteq> 0 \<and> (\<exists>c. crsp_tna r = Some c \<and>
                          tna_ratio r = Some (c * 1000000 / (a * 10000))))"
      by simp
    with j tr rj b show ?thesis by simp
  qed
  have keep: "add_tna_ratio j \<in> set (filter_tna_ratio (filter_tna ?J))
        \<longleftrightarrow> (\<exists>v. tna_ratio (add_tna_ratio j) = Some v \<and> 1 / 2 < v \<and> v < 2)"
    if j: "j \<in> set (filter_tna ?J)" for j
  proof
    assume "add_tna_ratio j \<in> set (filter_tna_ratio (filter_tna ?J))"
    then show "\<exists>v. tna_ratio (add_tna_ratio j) = Some v \<and> 1 / 2 < v \<and> v < 2"
      unfolding filter_tna_ratio_member by blast
  next
    assume "\<exists>v. tna_ratio (add_tna_ratio j) = Some v \<and> 1 / 2 < v \<and> v < 2"
    with j show "add_tna_ratio j \<in> set (filter_tna_ratio (filter_tna ?J))"
      unfolding filter_tna_ratio_member by blast
  qed
  from val surv keep show ?thesis by blast
qed

theorem tna_ratio_value_and_bounds_witness:
  "fund_year.truncate ex_universe_row \<in> set (joined ex_crsp ex_mflink1 ex_s12 ex_mflink2)
   \<and> fund_year_tr.truncate ex_universe_row
        \<in> set (filter_tna_ratio (filter_tna (joined ex_crsp ex_mflink1 ex_s12 ex_mflink2)))
   \<and> tna_ratio (add_tna_ratio (fund_year.truncate ex_universe_row))
        = Some (150 * 1000000 / (15000 * 10000))
   \<and> (\<exists>v. tna_ratio (fund_year_tr.truncate ex_universe_row) = Some v \<and> 1 / 2 < v \<and> v < 2)
   \<and> fund_year.truncate ex_universe_row_na \<in> set (joined ex_crsp ex_mflink1 ex_s12 ex_mflink2)
   \<and> fy_assets (fund_year.truncate ex_universe_row_na) = None
   \<and> tna_ratio (add_tna_ratio (fund_year.truncate ex_universe_row_na)) = Some 1
   \<and> add_tna_ratio ex2_fund7
        \<in> set (filter_tna_ratio (filter_tna (joined ex2_crsp ex2_mflink1 ex2_s12 ex2_mflink2)))
   \<and> tna_ratio (add_tna_ratio ex2_fund7) = Some (150 * 1000000 / (12000 * 10000))
   \<and> (150 * 1000000 / (12000 * 10000) :: real) = 5 / 4
   \<and> ex2_fund8 \<in> set (filter_tna (joined ex2_crsp ex2_mflink1 ex2_s12 ex2_mflink2))
   \<and> tna_ratio (add_tna_ratio ex2_fund8) = Some (500 * 1000000 / (10000 * 10000))
   \<and> (500 * 1000000 / (10000 * 10000) :: real) = 5
   \<and> add_tna_ratio ex2_fund8
        \<notin> set (filter_tna_ratio (filter_tna (joined ex2_crsp ex2_mflink1 ex2_s12 ex2_mflink2)))"
proof -
  have h1: "fund_year.truncate ex_universe_row
              \<in> set (joined ex_crsp ex_mflink1 ex_s12 ex_mflink2)"
    by (simp add: ex_joined ex_universe_row_def fund_year.defs)
  have h2: "fund_year_tr.truncate ex_universe_row
              \<in> set (filter_tna_ratio (filter_tna (joined ex_crsp ex_mflink1 ex_s12 ex_mflink2)))"
    by (simp add: ex_filter_tna_ratio ex_universe_row_def fund_year_tr.defs)
  have cells: "fy_assets (fund_year.truncate ex_universe_row) = Some 15000"
    "crsp_tna (fund_year.truncate ex_universe_row) = Some 150"
    by (simp_all add: ex_universe_row_def fund_year.defs)
  note t = tna_ratio_value_and_bounds [of ex_crsp ex_mflink1 ex_s12 ex_mflink2]
  from t h1 cells
  have "tna_ratio (add_tna_ratio (fund_year.truncate ex_universe_row))
          = Some (150 * 1000000 / (15000 * 10000))"
    by fastforce
  moreover from t h2
  have "\<exists>v. tna_ratio (fund_year_tr.truncate ex_universe_row) = Some v \<and> 1 / 2 < v \<and> v < 2"
    by blast
  moreover have h3: "fund_year.truncate ex_universe_row_na
              \<in> set (joined ex_crsp ex_mflink1 ex_s12 ex_mflink2)"
    by (simp add: ex_joined ex_universe_row_na_def fund_year.defs)
  moreover have na: "fy_assets (fund_year.truncate ex_universe_row_na) = None"
    by (simp add: ex_universe_row_na_def fund_year.defs)
  moreover from t h3 na
  have "tna_ratio (add_tna_ratio (fund_year.truncate ex_universe_row_na)) = Some 1"
    by blast
  ultimately have first:
    "fund_year.truncate ex_universe_row \<in> set (joined ex_crsp ex_mflink1 ex_s12 ex_mflink2)
   \<and> fund_year_tr.truncate ex_universe_row
        \<in> set (filter_tna_ratio (filter_tna (joined ex_crsp ex_mflink1 ex_s12 ex_mflink2)))
   \<and> tna_ratio (add_tna_ratio (fund_year.truncate ex_universe_row))
        = Some (150 * 1000000 / (15000 * 10000))
   \<and> (\<exists>v. tna_ratio (fund_year_tr.truncate ex_universe_row) = Some v \<and> 1 / 2 < v \<and> v < 2)
   \<and> fund_year.truncate ex_universe_row_na \<in> set (joined ex_crsp ex_mflink1 ex_s12 ex_mflink2)
   \<and> fy_assets (fund_year.truncate ex_universe_row_na) = None
   \<and> tna_ratio (add_tna_ratio (fund_year.truncate ex_universe_row_na)) = Some 1"
    using h1 h2 by blast
  note t2 = tna_ratio_value_and_bounds [of ex2_crsp ex2_mflink1 ex2_s12 ex2_mflink2]
  have s7: "add_tna_ratio ex2_fund7
        \<in> set (filter_tna_ratio (filter_tna (joined ex2_crsp ex2_mflink1 ex2_s12 ex2_mflink2)))"
    by (simp add: ex2_filter_tna_ratio)
  have f7: "fy_assets (add_tna_ratio ex2_fund7) = Some 12000"
    "crsp_tna (add_tna_ratio ex2_fund7) = Some 150"
    by (simp_all add: add_tna_ratio_simps ex2_fund7_def)
  from t2 s7 have "\<forall>a. fy_assets (add_tna_ratio ex2_fund7) = Some a \<longrightarrow>
             a \<noteq> 0 \<and> (\<exists>c. crsp_tna (add_tna_ratio ex2_fund7) = Some c \<and>
                  tna_ratio (add_tna_ratio ex2_fund7) = Some (c * 1000000 / (a * 10000)))"
    by blast
  with f7 have v7: "tna_ratio (add_tna_ratio ex2_fund7) = Some (150 * 1000000 / (12000 * 10000))"
    by auto
  have j8: "ex2_fund8 \<in> set (filter_tna (joined ex2_crsp ex2_mflink1 ex2_s12 ex2_mflink2))"
    by (simp add: ex2_filter_tna)
  have j8': "ex2_fund8 \<in> set (joined ex2_crsp ex2_mflink1 ex2_s12 ex2_mflink2)"
    by (simp add: ex2_joined)
  have f8: "fy_assets ex2_fund8 = Some 10000" "crsp_tna ex2_fund8 = Some 500"
    by (simp_all add: ex2_fund8_def)
  from t2 j8' have "\<forall>a. fy_assets ex2_fund8 = Some a \<longrightarrow>
           a \<noteq> 0 \<and> (\<exists>c. crsp_tna ex2_fund8 = Some c \<and>
                tna_ratio (add_tna_ratio ex2_fund8) = Some (c * 1000000 / (a * 10000)))"
    by blast
  with f8 have v8: "tna_ratio (add_tna_ratio ex2_fund8) = Some (500 * 1000000 / (10000 * 10000))"
    by auto
  from t2 j8 have "add_tna_ratio ex2_fund8
        \<in> set (filter_tna_ratio (filter_tna (joined ex2_crsp ex2_mflink1 ex2_s12 ex2_mflink2)))
        \<longleftrightarrow> (\<exists>v. tna_ratio (add_tna_ratio ex2_fund8) = Some v \<and> 1 / 2 < v \<and> v < 2)"
    by blast
  with v8 have n8: "add_tna_ratio ex2_fund8
        \<notin> set (filter_tna_ratio (filter_tna (joined ex2_crsp ex2_mflink1 ex2_s12 ex2_mflink2)))"
    by simp
  have a7: "(150 * 1000000 / (12000 * 10000) :: real) = 5 / 4" by simp
  have a8: "(500 * 1000000 / (10000 * 10000) :: real) = 5" by simp
  from first s7 v7 a7 j8 v8 a8 n8 show ?thesis by blast
qed

text \<open>
  C10. None of the ratio computations divides by zero. The holdings aggregation never
  yields assets equal to zero (a zero is recoded to missing); on every record the
  TNA-ratio quotient is computed for, and on every record the two equity ratios are
  computed for, the quotient is a value and not a division by zero, and CRSP TNA is
  above 1 by the time \<open>eq_ratio_1\<close> divides by it.
\<close>

theorem no_division_by_zero:
  "(\<forall>q\<in>set (df_eq (df_s12 s12 mflink2)). q_assets q \<noteq> Some 0)
   \<and> (\<forall>j\<in>set (filter_tna (joined crsp mflink1 s12 mflink2)).
         tna_ratio_quotient j \<noteq> Inl DivideByZero)
   \<and> (\<forall>b\<in>set (filter_tna_ratio (filter_tna (joined crsp mflink1 s12 mflink2))).
         (\<exists>c. crsp_tna b = Some c \<and> 1 < c)
         \<and> eq_ratio_1_quotient b \<noteq> Inl DivideByZero
         \<and> eq_ratio_2_quotient b \<noteq> Inl DivideByZero)"
proof (intro conjI ballI)
  fix q assume "q \<in> set (df_eq (df_s12 s12 mflink2))"
  then show "q_assets q \<noteq> Some 0" by (rule df_eq_cells(1))
next
  fix j assume "j \<in> set (filter_tna (joined crsp mflink1 s12 mflink2))"
  then have "j \<in> set (joined crsp mflink1 s12 mflink2)" by (simp add: filter_tna_member)
  then have "fy_assets j \<noteq> Some 0" by (rule joined_cells(2))
  then show "tna_ratio_quotient j \<noteq> Inl DivideByZero"
    by (auto simp: tna_ratio_quotient_def fdiv_def then_div_def split: option.splits)
next
  fix b assume "b \<in> set (filter_tna_ratio (filter_tna (joined crsp mflink1 s12 mflink2)))"
  then obtain j where j: "j \<in> set (filter_tna (joined crsp mflink1 s12 mflink2))"
    and b: "b = add_tna_ratio j"
    unfolding filter_tna_ratio_member by blast
  from j obtain c where c: "crsp_tna j = Some c" "1 < c" and jj: "j \<in> set (joined crsp mflink1 s12 mflink2)"
    by (auto simp: filter_tna_member)
  have nz: "fy_assets j \<noteq> Some 0" by (rule joined_cells(2)[OF jj])
  from c show "\<exists>c. crsp_tna b = Some c \<and> 1 < c" by (simp add: b add_tna_ratio_simps)
  from c show "eq_ratio_1_quotient b \<noteq> Inl DivideByZero"
    by (auto simp: b add_tna_ratio_simps eq_ratio_1_quotient_def fdiv_def fmul_def
        split: option.splits)
  from nz show "eq_ratio_2_quotient b \<noteq> Inl DivideByZero"
    by (auto simp: b add_tna_ratio_simps eq_ratio_2_quotient_def fdiv_def fmul_def
        split: option.splits)
qed

theorem no_division_by_zero_witness:
  "\<lparr>q_wficn = 7, q_year = 2000, q_assets = Some 15000, q_useq_tna_k = Some 135000\<rparr>
      \<in> set (df_eq (df_s12 ex_s12 ex_mflink2))
   \<and> fund_year.truncate ex_universe_row
        \<in> set (filter_tna (joined ex_crsp ex_mflink1 ex_s12 ex_mflink2))
   \<and> fund_year_tr.truncate ex_universe_row
        \<in> set (filter_tna_ratio (filter_tna (joined ex_crsp ex_mflink1 ex_s12 ex_mflink2)))
   \<and> tna_ratio_quotient (fund_year.truncate ex_universe_row) \<noteq> Inl DivideByZero
   \<and> eq_ratio_1_quotient (fund_year_tr.truncate ex_universe_row) \<noteq> Inl DivideByZero
   \<and> eq_ratio_2_quotient (fund_year_tr.truncate ex_universe_row) \<noteq> Inl DivideByZero"
proof -
  have h0: "\<lparr>q_wficn = 7, q_year = 2000, q_assets = Some 15000, q_useq_tna_k = Some 135000\<rparr>
      \<in> set (df_eq (df_s12 ex_s12 ex_mflink2))"
    by (simp add: ex_df_eq)
  have h1: "fund_year.truncate ex_universe_row
              \<in> set (filter_tna (joined ex_crsp ex_mflink1 ex_s12 ex_mflink2))"
    by (simp add: ex_filter_tna ex_universe_row_def fund_year.defs)
  have h2: "fund_year_tr.truncate ex_universe_row
              \<in> set (filter_tna_ratio (filter_tna (joined ex_crsp ex_mflink1 ex_s12 ex_mflink2)))"
    by (simp add: ex_filter_tna_ratio ex_universe_row_def fund_year_tr.defs)
  note t = no_division_by_zero [of ex_s12 ex_mflink2 ex_crsp ex_mflink1]
  from t h1 have "tna_ratio_quotient (fund_year.truncate ex_universe_row) \<noteq> Inl DivideByZero"
    by blast
  moreover from t h2
  have "eq_ratio_1_quotient (fund_year_tr.truncate ex_universe_row) \<noteq> Inl DivideByZero"
    "eq_ratio_2_quotient (fund_year_tr.truncate ex_universe_row) \<noteq> Inl DivideByZero"
    by blast+
  ultimately show ?thesis using h0 h1 h2 by blast
qed

text \<open>
  C8, as the code has it. The three universe filters are applied one after the other to
  the joined table, and each one only removes records: the records after a filter (looked
  at without the ratio columns the step adds) are a subsequence of the records before it.
  A filter removes nothing exactly when every record passes its test.
\<close>

theorem filters_sequential_and_narrowing:
  "universe crsp mflink1 s12 mflink2 =
     filter_eq_ratio (filter_tna_ratio (filter_tna (joined crsp mflink1 s12 mflink2)))
   \<and> subseq (filter_tna df) df
   \<and> subseq (map fund_year.truncate (filter_tna_ratio df)) df
   \<and> subseq (map fund_year_tr.truncate (filter_eq_ratio dft)) dft
   \<and> (filter_tna df = df \<longleftrightarrow> list_all (\<lambda>r. fgt (crsp_tna r) 1) df)
   \<and> (map fund_year.truncate (filter_tna_ratio df) = df \<longleftrightarrow>
        list_all (\<lambda>r. fgt (tna_ratio (add_tna_ratio r)) (1 / 2)
                     \<and> flt (tna_ratio (add_tna_ratio r)) 2) df)
   \<and> (map fund_year_tr.truncate (filter_eq_ratio dft) = dft \<longleftrightarrow>
        list_all (\<lambda>r. between (eq_ratio_1 (add_eq_ratios r)) (8 / 10) (105 / 100)
                     \<or> between (eq_ratio_2 (add_eq_ratios r)) (8 / 10) (105 / 100)) dft)"
proof (intro conjI)
  show "universe crsp mflink1 s12 mflink2 =
     filter_eq_ratio (filter_tna_ratio (filter_tna (joined crsp mflink1 s12 mflink2)))"
    by (simp add: universe_def)
  show "subseq (filter_tna df) df"
    by (simp add: filter_tna_def)
  show "subseq (map fund_year.truncate (filter_tna_ratio df)) df"
    by (simp add: filter_tna_ratio_truncate)
  show "subseq (map fund_year_tr.truncate (filter_eq_ratio dft)) dft"
    by (simp add: filter_eq_ratio_truncate)
  show "filter_tna df = df \<longleftrightarrow> list_all (\<lambda>r. fgt (crsp_tna r) 1) df"
    unfolding filter_tna_def by (rule filter_keeps_all)
  show "map fund_year.truncate (filter_tna_ratio df) = df \<longleftrightarrow>
        list_all (\<lambda>r. fgt (tna_ratio (add_tna_ratio r)) (1 / 2)
                     \<and> flt (tna_ratio (add_tna_ratio r)) 2) df"
    unfolding filter_tna_ratio_truncate by (rule filter_keeps_all)
  show "map fund_year_tr.truncate (filter_eq_ratio dft) = dft \<longleftrightarrow>
        list_all (\<lambda>r. between (eq_ratio_1 (add_eq_ratios r)) (8 / 10) (105 / 100)
                     \<or> between (eq_ratio_2 (add_eq_ratios r)) (8 / 10) (105 / 100)) dft"
    unfolding filter_eq_ratio_truncate by (rule filter_keeps_all)
qed

theorem filters_sequential_and_narrowing_witness:
  "list_all (\<lambda>r. fgt (crsp_tna r) 1) (joined ex_crsp ex_mflink1 ex_s12 ex_mflink2)
   \<and> filter_tna (joined ex_crsp ex_mflink1 ex_s12 ex_mflink2)
       = joined ex_crsp ex_mflink1 ex_s12 ex_mflink2
   \<and> \<not> list_all (\<lambda>r. fgt (crsp_tna r) 1) (joined ex2_crsp ex2_mflink1 ex2_s12 ex2_mflink2)
   \<and> filter_tna (joined ex2_crsp ex2_mflink1 ex2_s12 ex2_mflink2)
       \<noteq> joined ex2_crsp ex2_mflink1 ex2_s12 ex2_mflink2
   \<and> subseq (filter_tna (joined ex2_crsp ex2_mflink1 ex2_s12 ex2_mflink2))
            (joined ex2_crsp ex2_mflink1 ex2_s12 ex2_mflink2)
   \<and> \<not> list_all (\<lambda>r. fgt (tna_ratio (add_tna_ratio r)) (1 / 2)
                     \<and> flt (tna_ratio (add_tna_ratio r)) 2)
          (filter_tna (joined ex2_crsp ex2_mflink1 ex2_s12 ex2_mflink2))
   \<and> map fund_year.truncate
         (filter_tna_ratio (filter_tna (joined ex2_crsp ex2_mflink1 ex2_s12 ex2_mflink2)))
       \<noteq> filter_tna (joined ex2_crsp ex2_mflink1 ex2_s12 ex2_mflink2)"
proof -
  note t1 = filters_sequential_and_narrowing
    [of ex_crsp ex_mflink1 ex_s12 ex_mflink2 "joined ex_crsp ex_mflink1 ex_s12 ex_mflink2"]
  note t2 = filters_sequential_and_narrowing
    [of ex2_crsp ex2_mflink1 ex2_s12 ex2_mflink2 "joined ex2_crsp ex2_mflink1 ex2_s12 ex2_mflink2"]
  note t3 = filters_sequential_and_narrowing
    [of ex2_crsp ex2_mflink1 ex2_s12 ex2_mflink2
        "filter_tna (joined ex2_crsp ex2_mflink1 ex2_s12 ex2_mflink2)"]
  have p1: "list_all (\<lambda>r. fgt (crsp_tna r) 1) (joined ex_crsp ex_mflink1 ex_s12 ex_mflink2)"
    by (simp add: ex_joined fgt_def)
  with t1 have e1: "filter_tna (joined ex_crsp ex_mflink1 ex_s12 ex_mflink2)
       = joined ex_crsp ex_mflink1 ex_s12 ex_mflink2"
    by blast
  have p2: "\<not> list_all (\<lambda>r. fgt (crsp_tna r) 1) (joined ex2_crsp ex2_mflink1 ex2_s12 ex2_mflink2)"
    by (simp add: ex2_joined fgt_def ex2_fund7_def ex2_fund8_def ex2_fund9_def)
  with t2 have e2: "filter_tna (joined ex2_crsp ex2_mflink1 ex2_s12 ex2_mflink2)
       \<noteq> joined ex2_crsp ex2_mflink1 ex2_s12 ex2_mflink2"
    by blast
  from t2 have e3: "subseq (filter_tna (joined ex2_crsp ex2_mflink1 ex2_s12 ex2_mflink2))
            (joined ex2_crsp ex2_mflink1 ex2_s12 ex2_mflink2)"
    by blast
  have p3: "\<not> list_all (\<lambda>r. fgt (tna_ratio (add_tna_ratio r)) (1 / 2)
                     \<and> flt (tna_ratio (add_tna_ratio r)) 2)
          (filter_tna (joined ex2_crsp ex2_mflink1 ex2_s12 ex2_mflink2))"
    by (simp add: ex2_filter_tna ratio_defs ex2_fund7_def ex2_fund8_def)
  with t3 have e4: "map fund_year.truncate
         (filter_tna_ratio (filter_tna (joined ex2_crsp ex2_mflink1 ex2_s12 ex2_mflink2)))
       \<noteq> filter_tna (joined ex2_crsp ex2_mflink1 ex2_s12 ex2_mflink2)"
    by blast
  from p1 e1 p2 e2 e3 p3 e4 show ?thesis by blast
qed

text \<open>
  C8 as stated fails: on the example run the joined table has two records, both pass all
  three tests, and no filter narrows the retained set.
\<close>

theorem filters_strictly_narrowing_counterexample:
  "joined ex_crsp ex_mflink1 ex_s12 ex_mflink2 \<noteq> []
   \<and> filter_tna (joined ex_crsp ex_mflink1 ex_s12 ex_mflink2)
       = joined ex_crsp ex_mflink1 ex_s12 ex_mflink2
   \<and> map fund_year.truncate
         (filter_tna_ratio (filter_tna (joined ex_crsp ex_mflink1 ex_s12 ex_mflink2)))
       = filter_tna (joined ex_crsp ex_mflink1 ex_s12 ex_mflink2)
   \<and> map fund_year_tr.truncate (universe ex_crsp ex_mflink1 ex_s12 ex_mflink2)
       = filter_tna_ratio (filter_tna (joined ex_crsp ex_mflink1 ex_s12 ex_mflink2))"
  by (simp add: universe_def ex_joined filter_tna_def filter_tna_ratio_def filter_eq_ratio_def
      ratio_defs)

section \<open>Holdings aggregation\<close>

text \<open>
  C5 on the example with a missing last report: the fund-year record carries the
  equity-holdings value of the December report (200) and the assets of the March report
  (500), not the missing assets of the December report.
\<close>

theorem holdings_last_mixes_reports:
  "df_eq (df_s12 ex_s12_missing_assets ex_mflink2) =
     [\<lparr>q_wficn = 7, q_year = 2011, q_assets = Some 500, q_useq_tna_k = Some 200\<rparr>]
   \<and> df_eq_reports (df_s12 ex_s12_missing_assets ex_mflink2) =
     [\<lparr>e_year = 2011, e_fdate = (2011, 3, 31), e_wficn = 7, e_assets = Some 500,
       e_useq_tna_k = Some 100\<rparr>,
      \<lparr>e_year = 2011, e_fdate = (2011, 12, 31), e_wficn = 7, e_assets = None,
       e_useq_tna_k = Some 200\<rparr>]"
  by (simp add: ex_s12_missing_assets_def ex_mflink2_def df_eq_def df_eq_reports_def df_s12_def
      link_row_def asof_nearest_def groupby_def group_keys_def assets_filled_def fillna_def
      dt_year_def sum_skipna_def last_skipna_def days_from_civil_def)

section \<open>Annual returns and year-end TNA\<close>

text \<open>
  C1. For every fund-level id and year, the annual return in the output (in \<open>df_ret\<close>,
  and in the joined fund-year table) is the product, over the months of that year for
  which the fund has data, of 1 + the simple mean of that month's returns across the
  fund's share classes, minus 1. Calendar months run up to 12.
\<close>

theorem annual_return_compounds_monthly_means:
  assumes valid: "\<forall>r\<in>set crsp. dt_month (caldt r) \<le> 12"
  shows "(\<forall>a\<in>set (df_ret (df_crsp crsp mflink1)).
           y_yret a = Some ((\<Prod>m\<in>months_available (df_crsp crsp mflink1) (y_wficn a) (y_year a).
                               1 + monthly_mean (df_crsp crsp mflink1) (y_wficn a) (y_year a) m) - 1))
       \<and> (\<forall>j\<in>set (joined crsp mflink1 s12 mflink2).
           yret j = Some ((\<Prod>m\<in>months_available (df_crsp crsp mflink1) (wficn j) (year j).
                               1 + monthly_mean (df_crsp crsp mflink1) (wficn j) (year j) m) - 1))"
proof -
  let ?df = "df_crsp crsp mflink1"
  have some: "\<forall>x\<in>set ?df. c_mret x \<noteq> None" using df_crsp_mret_present by blast
  have months: "{m \<in> months_available ?df w y. m \<le> 12} = months_available ?df w y" for w y
    using valid by (auto simp: months_available_def df_crsp_member)
  have ret: "y_yret a = Some ((\<Prod>m\<in>months_available ?df (y_wficn a) (y_year a).
                               1 + monthly_mean ?df (y_wficn a) (y_year a) m) - 1)"
    if "a \<in> set (df_ret ?df)" for a
    using df_ret_december_value(2,3)[OF some that] by (simp add: months fsub_def)
  show ?thesis
  proof (intro conjI ballI)
    fix a assume "a \<in> set (df_ret ?df)"
    then show "y_yret a = Some ((\<Prod>m\<in>months_available ?df (y_wficn a) (y_year a).
                               1 + monthly_mean ?df (y_wficn a) (y_year a) m) - 1)"
      by (rule ret)
  next
    fix j assume "j \<in> set (joined crsp mflink1 s12 mflink2)"
    then obtain c where c: "c \<in> set (df_crsp_clean ?df)"
      and j: "wficn j = cc_wficn c" "year j = cc_year c" "yret j = cc_yret c"
      by (auto simp: joined_def df_combo_member)
    from c obtain a where a: "a \<in> set (df_ret ?df)"
      and ca: "cc_wficn c = y_wficn a" "cc_year c = y_year a" "cc_yret c = y_yret a"
      by (auto simp: df_crsp_clean_member)
    from ret[OF a] j ca
    show "yret j = Some ((\<Prod>m\<in>months_available ?df (wficn j) (year j).
                               1 + monthly_mean ?df (wficn j) (year j) m) - 1)"
      by simp
  qed
qed

theorem annual_return_compounds_monthly_means_witness:
  "list_all (\<lambda>r. dt_month (caldt r) \<le> 12) ex_crsp
   \<and> \<lparr>y_wficn = 7, y_year = 2000, y_month = 12, y_cumret = Some (509747 / 500000),
       y_yret = Some (9747 / 500000)\<rparr> \<in> set (df_ret (df_crsp ex_crsp ex_mflink1))
   \<and> Some (9747 / 500000) =
       Some ((\<Prod>m\<in>months_available (df_crsp ex_crsp ex_mflink1) 7 2000.
                 1 + monthly_mean (df_crsp ex_crsp ex_mflink1) 7 2000 m) - 1)
   \<and> (\<Prod>m\<in>months_available (df_crsp ex_crsp ex_mflink1) 7 2000.
          1 + monthly_mean (df_crsp ex_crsp ex_mflink1) 7 2000 m)
       = (1 + 1 / 100) * (1 + - 2 / 100) * (1 + 3 / 100)
   \<and> (9747 / 500000 :: real) = (1 + 1 / 100) * (1 + - 2 / 100) * (1 + 3 / 100) - 1"
proof -
  let ?a = "\<lparr>y_wficn = 7, y_year = 2000, y_month = 12, y_cumret = Some (509747 / 500000),
       y_yret = Some (9747 / 500000)\<rparr>"
  have v: "\<forall>r\<in>set ex_crsp. dt_month (caldt r) \<le> 12"
    by (simp add: ex_crsp_def dt_month_def)
  have m: "?a \<in> set (df_ret (df_crsp ex_crsp ex_mflink1))"
    by (simp add: ex_df_ret)
  from annual_return_compounds_monthly_means [OF v, of ex_mflink1 ex_s12 ex_mflink2] m
  have "y_yret ?a = Some ((\<Prod>m\<in>months_available (df_crsp ex_crsp ex_mflink1) (y_wficn ?a) (y_year ?a).
                 1 + monthly_mean (df_crsp ex_crsp ex_mflink1) (y_wficn ?a) (y_year ?a) m) - 1)"
    by blast
  then have e: "Some (9747 / 500000) =
       Some ((\<Prod>m\<in>months_available (df_crsp ex_crsp ex_mflink1) 7 2000.
                 1 + monthly_mean (df_crsp ex_crsp ex_mflink1) 7 2000 m) - 1)"
    by simp
  have ar: "(9747 / 500000 :: real) = (1 + 1 / 100) * (1 + - 2 / 100) * (1 + 3 / 100) - 1"
    by simp
  have pr: "(\<Prod>m\<in>months_available (df_crsp ex_crsp ex_mflink1) 7 2000.
          1 + monthly_mean (df_crsp ex_crsp ex_mflink1) 7 2000 m)
       = (1 + 1 / 100) * (1 + - 2 / 100) * (1 + 3 / 100)"
    by (simp add: ex_months_fund7 ex_monthly_means)
  have v': "list_all (\<lambda>r. dt_month (caldt r) \<le> 12) ex_crsp"
    using v by (simp only: list_all_iff)
  from v' m e pr ar show ?thesis by blast
qed

text \<open>
  C7. Every annual record is the December row of its fund-year: its return is the
  December value of the running product minus 1, and that running product is the product
  of the monthly factors of whatever months up to December the fund has data for,
  however few. A fund-year has exactly one annual record when it has a December row and
  none otherwise; the record type carries no flag for an incomplete year.
\<close>

theorem only_december_cumulative_retained:
  "(\<forall>a\<in>set (df_ret (df_crsp crsp mflink1)).
      y_month a = 12 \<and> y_yret a = fsub (y_cumret a) (Some 1) \<and>
      y_cumret a =
        Some (\<Prod>m\<in>{m \<in> months_available (df_crsp crsp mflink1) (y_wficn a) (y_year a). m \<le> 12}.
                  1 + monthly_mean (df_crsp crsp mflink1) (y_wficn a) (y_year a) m))
   \<and> length (filter (\<lambda>a. y_wficn a = w \<and> y_year a = y) (df_ret (df_crsp crsp mflink1))) =
       (if 12 \<in> months_available (df_crsp crsp mflink1) w y then 1 else 0)"
proof -
  let ?df = "df_crsp crsp mflink1"
  have some: "\<forall>x\<in>set ?df. c_mret x \<noteq> None" using df_crsp_mret_present by blast
  show ?thesis
    using df_ret_december_value[OF some] df_ret_count[of w y ?df] by blast
qed

theorem only_december_cumulative_retained_witness:
  "\<lparr>y_wficn = 7, y_year = 2000, y_month = 12, y_cumret = Some (509747 / 500000),
       y_yret = Some (9747 / 500000)\<rparr> \<in> set (df_ret (df_crsp ex_crsp ex_mflink1))
   \<and> months_available (df_crsp ex_crsp ex_mflink1) 7 2000 = {10, 11, 12}
   \<and> Some (509747 / 500000) =
       Some (\<Prod>m\<in>{m \<in> months_available (df_crsp ex_crsp ex_mflink1) 7 2000. m \<le> 12}.
                 1 + monthly_mean (df_crsp ex_crsp ex_mflink1) 7 2000 m)
   \<and> length (filter (\<lambda>a. y_wficn a = 7 \<and> y_year a = 2000) (df_ret (df_crsp ex_crsp ex_mflink1))) = 1
   \<and> months_available (df_crsp ex_crsp ex_mflink1) 9 2000 = {11}
   \<and> length (filter (\<lambda>a. y_wficn a = 9 \<and> y_year a = 2000) (df_ret (df_crsp ex_crsp ex_mflink1))) = 0"
proof -
  let ?a = "\<lparr>y_wficn = 7, y_year = 2000, y_month = 12, y_cumret = Some (509747 / 500000),
       y_yret = Some (9747 / 500000)\<rparr>"
  have m: "?a \<in> set (df_ret (df_crsp ex_crsp ex_mflink1))"
    by (simp add: ex_df_ret)
  from only_december_cumulative_retained [of ex_crsp ex_mflink1 7 2000] m
  have "y_cumret ?a = Some (\<Prod>m\<in>{m \<in> months_available (df_crsp ex_crsp ex_mflink1) (y_wficn ?a) (y_year ?a). m \<le> 12}.
                 1 + monthly_mean (df_crsp ex_crsp ex_mflink1) (y_wficn ?a) (y_year ?a) m)"
    by blast
  then have c: "Some (509747 / 500000) =
       Some (\<Prod>m\<in>{m \<in> months_available (df_crsp ex_crsp ex_mflink1) 7 2000. m \<le> 12}.
                 1 + monthly_mean (df_crsp ex_crsp ex_mflink1) 7 2000 m)"
    by simp
  from only_december_cumulative_retained [of ex_crsp ex_mflink1 7 2000]
  have n7: "length (filter (\<lambda>a. y_wficn a = 7 \<and> y_year a = 2000) (df_ret (df_crsp ex_crsp ex_mflink1))) = 1"
    by (simp add: ex_months_fund7)
  from only_december_cumulative_retained [of ex_crsp ex_mflink1 9 2000]
  have n9: "length (filter (\<lambda>a. y_wficn a = 9 \<and> y_year a = 2000) (df_ret (df_crsp ex_crsp ex_mflink1))) = 0"
    by (simp add: ex_months_fund9)
  from m c n7 n9 show ?thesis by (simp only: ex_months_fund7 ex_months_fund9 simp_thms)
qed

text \<open>
  C4. For every fund-level id and year, the year-end TNA in the output (in \<open>df_tna\<close>, in
  the joined fund-year table and in the final table) is the sum of the December TNA values
  over the fund's share-class rows. A fund-year without a December row has no record in
  any of the three; a fund-year with a December row has exactly one record in \<open>df_tna\<close>,
  and a record in the joined table as soon as the holdings side has one for it. When the
  fund-year has no December TNA value at all (no December row, or December rows whose
  TNA is missing), a record it may have in \<open>df_tna\<close> or the joined table carries the
  empty sum 0, and the final table has no record for it.
\<close>

theorem year_end_tna_is_december_sum:
  "(\<forall>t\<in>set (df_tna (df_crsp crsp mflink1)).
      t_crsp_tna t = Some (december_tna (df_crsp crsp mflink1) (t_wficn t) (t_year t)))
   \<and> (\<forall>j\<in>set (joined crsp mflink1 s12 mflink2).
      crsp_tna j = Some (december_tna (df_crsp crsp mflink1) (wficn j) (year j)))
   \<and> (\<forall>r\<in>set (universe crsp mflink1 s12 mflink2).
      crsp_tna r = Some (december_tna (df_crsp crsp mflink1) (wficn r) (year r)) \<and>
      1 < december_tna (df_crsp crsp mflink1) (wficn r) (year r))
   \<and> (12 \<notin> months_available (df_crsp crsp mflink1) w y \<longrightarrow>
        (\<forall>t\<in>set (df_tna (df_crsp crsp mflink1)). \<not> (t_wficn t = w \<and> t_year t = y)) \<and>
        (\<forall>j\<in>set (joined crsp mflink1 s12 mflink2). \<not> (wficn j = w \<and> year j = y)) \<and>
        (\<forall>r\<in>set (universe crsp mflink1 s12 mflink2). \<not> (wficn r = w \<and> year r = y)))
   \<and> length (filter (\<lambda>t. t_wficn t = w \<and> t_year t = y) (df_tna (df_crsp crsp mflink1))) =
       (if 12 \<in> months_available (df_crsp crsp mflink1) w y then 1 else 0)
   \<and> (12 \<in> months_available (df_crsp crsp mflink1) w y \<longrightarrow>
        (\<forall>q\<in>set (df_eq (df_s12 s12 mflink2)). q_wficn q = w \<and> q_year q = y \<longrightarrow>
           (\<exists>j\<in>set (joined crsp mflink1 s12 mflink2). wficn j = w \<and> year j = y)))
   \<and> (december_tna_values (df_crsp crsp mflink1) w y = [] \<longrightarrow>
        (\<forall>t\<in>set (df_tna (df_crsp crsp mflink1)).
            t_wficn t = w \<and> t_year t = y \<longrightarrow> t_crsp_tna t = Some 0) \<and>
        (\<forall>j\<in>set (joined crsp mflink1 s12 mflink2).
            wficn j = w \<and> year j = y \<longrightarrow> crsp_tna j = Some 0) \<and>
        (\<forall>r\<in>set (universe crsp mflink1 s12 mflink2). \<not> (wficn r = w \<and> year r = y)))"
proof -
  let ?df = "df_crsp crsp mflink1"
  let ?J = "joined crsp mflink1 s12 mflink2"
  let ?U = "universe crsp mflink1 s12 mflink2"
  have uj: "\<exists>j\<in>set ?J. wficn j = wficn r \<and> year j = year r" if "r \<in> set ?U" for r
  proof -
    from that obtain j where "j \<in> set ?J" "r = add_eq_ratios (add_tna_ratio j)"
      by (rule universe_origin)
    then show ?thesis by (auto simp: add_eq_ratios_simps add_tna_ratio_simps)
  qed
  have c1: "\<forall>t\<in>set (df_tna ?df). t_crsp_tna t = Some (december_tna ?df (t_wficn t) (t_year t))"
    using df_tna_value(1) by blast
  have c2: "\<forall>j\<in>set ?J. crsp_tna j = Some (december_tna ?df (wficn j) (year j))"
    using joined_tna_value(1) by blast
  have c3: "\<forall>r\<in>set ?U. crsp_tna r = Some (december_tna ?df (wficn r) (year r)) \<and>
      1 < december_tna ?df (wficn r) (year r)"
    using universe_tna by blast
  have c4: "12 \<notin> months_available ?df w y \<longrightarrow>
        (\<forall>t\<in>set (df_tna ?df). \<not> (t_wficn t = w \<and> t_year t = y)) \<and>
        (\<forall>j\<in>set ?J. \<not> (wficn j = w \<and> year j = y)) \<and>
        (\<forall>r\<in>set ?U. \<not> (wficn r = w \<and> year r = y))"
  proof (intro impI conjI ballI)
    fix t assume "12 \<notin> months_available ?df w y" "t \<in> set (df_tna ?df)"
    then show "\<not> (t_wficn t = w \<and> t_year t = y)" using df_tna_value(2) by blast
  next
    fix j assume no: "12 \<notin> months_available ?df w y" and j: "j \<in> set ?J"
    from joined_tna_value(2)[OF j] no show "\<not> (wficn j = w \<and> year j = y)" by blast
  next
    fix r assume no: "12 \<notin> months_available ?df w y" and r: "r \<in> set ?U"
    from uj[OF r] obtain j where j: "j \<in> set ?J" "wficn j = wficn r" "year j = year r" by blast
    from joined_tna_value(2)[OF j(1)] no j show "\<not> (wficn r = w \<and> year r = y)" by auto
  qed
  have c5: "length (filter (\<lambda>t. t_wficn t = w \<and> t_year t = y) (df_tna ?df)) =
       (if 12 \<in> months_available ?df w y then 1 else 0)"
    by (rule df_tna_count)
  have c6: "12 \<in> months_available ?df w y \<longrightarrow>
        (\<forall>q\<in>set (df_eq (df_s12 s12 mflink2)). q_wficn q = w \<and> q_year q = y \<longrightarrow>
           (\<exists>j\<in>set ?J. wficn j = w \<and> year j = y))"
    using joined_present by blast
  have c7: "december_tna_values ?df w y = [] \<longrightarrow>
        (\<forall>t\<in>set (df_tna ?df). t_wficn t = w \<and> t_year t = y \<longrightarrow> t_crsp_tna t = Some 0) \<and>
        (\<forall>j\<in>set ?J. wficn j = w \<and> year j = y \<longrightarrow> crsp_tna j = Some 0) \<and>
        (\<forall>r\<in>set ?U. \<not> (wficn r = w \<and> year r = y))"
  proof (intro impI conjI ballI)
    fix t assume e: "december_tna_values ?df w y = []" and t: "t \<in> set (df_tna ?df)"
      and k: "t_wficn t = w \<and> t_year t = y"
    from df_tna_value(1)[OF t] k e show "t_crsp_tna t = Some 0"
      by (simp add: december_tna_def)
  next
    fix j assume e: "december_tna_values ?df w y = []" and j: "j \<in> set ?J"
      and k: "wficn j = w \<and> year j = y"
    from joined_tna_value(1)[OF j] k e show "crsp_tna j = Some 0"
      by (simp add: december_tna_def)
  next
    fix r assume e: "december_tna_values ?df w y = []" and r: "r \<in> set ?U"
    show "\<not> (wficn r = w \<and> year r = y)"
    proof
      assume k: "wficn r = w \<and> year r = y"
      from universe_tna(2)[OF r] k e show False by (simp add: december_tna_def)
    qed
  qed
  from c1 c2 c3 c4 c5 c6 c7 show ?thesis by (intro conjI)
qed

theorem year_end_tna_is_december_sum_witness:
  "\<lparr>t_wficn = 7, t_year = 2000, t_crsp_tna = Some 150\<rparr> \<in> set (df_tna (df_crsp ex_crsp ex_mflink1))
   \<and> Some 150 = Some (december_tna (df_crsp ex_crsp ex_mflink1) 7 2000)
   \<and> december_tna (df_crsp ex_crsp ex_mflink1) 7 2000 = 100 + 50
   \<and> 12 \<in> months_available (df_crsp ex_crsp ex_mflink1) 7 2000
   \<and> length (filter (\<lambda>t. t_wficn t = 7 \<and> t_year t = 2000)
                (df_tna (df_crsp ex_crsp ex_mflink1))) = 1
   \<and> 12 \<notin> months_available (df_crsp ex_crsp ex_mflink1) 9 2000
   \<and> filter (\<lambda>t. t_wficn t = 9 \<and> t_year t = 2000) (df_tna (df_crsp ex_crsp ex_mflink1)) = []
   \<and> filter (\<lambda>j. wficn j = 9 \<and> year j = 2000) (joined ex_crsp ex_mflink1 ex_s12 ex_mflink2) = []
   \<and> filter (\<lambda>r. wficn r = 9 \<and> year r = 2000) (universe ex_crsp ex_mflink1 ex_s12 ex_mflink2) = []
   \<and> 12 \<in> months_available (df_crsp ex2_crsp ex2_mflink1) 9 2001
   \<and> december_tna_values (df_crsp ex2_crsp ex2_mflink1) 9 2001 = []
   \<and> \<lparr>t_wficn = 9, t_year = 2001, t_crsp_tna = Some 0\<rparr>
        \<in> set (df_tna (df_crsp ex2_crsp ex2_mflink1))
   \<and> \<lparr>q_wficn = 9, q_year = 2001, q_assets = Some 100, q_useq_tna_k = Some 900\<rparr>
        \<in> set (df_eq (df_s12 ex2_s12 ex2_mflink2))
   \<and> (\<exists>j\<in>set (joined ex2_crsp ex2_mflink1 ex2_s12 ex2_mflink2). wficn j = 9 \<and> year j = 2001)
   \<and> ex2_fund9 \<in> set (joined ex2_crsp ex2_mflink1 ex2_s12 ex2_mflink2)
   \<and> crsp_tna ex2_fund9 = Some 0
   \<and> filter (\<lambda>r. wficn r = 9 \<and> year r = 2001)
        (universe ex2_crsp ex2_mflink1 ex2_s12 ex2_mflink2) = []
   \<and> crsp_tna (add_eq_ratios (add_tna_ratio ex2_fund7))
        = Some (december_tna (df_crsp ex2_crsp ex2_mflink1) 7 2001)"
proof -
  let ?t = "\<lparr>t_wficn = 7, t_year = 2000, t_crsp_tna = Some 150\<rparr>"
  have m: "?t \<in> set (df_tna (df_crsp ex_crsp ex_mflink1))" by (simp add: ex_df_tna)
  have no: "12 \<notin> months_available (df_crsp ex_crsp ex_mflink1) 9 2000"
    by (simp add: ex_months_fund9)
  have yes: "12 \<in> months_available (df_crsp ex_crsp ex_mflink1) 7 2000"
    by (simp add: ex_months_fund7)
  note t = year_end_tna_is_december_sum [of ex_crsp ex_mflink1 ex_s12 ex_mflink2 9 2000]
  note t7 = year_end_tna_is_december_sum [of ex_crsp ex_mflink1 ex_s12 ex_mflink2 7 2000]
  from t m have "t_crsp_tna ?t = Some (december_tna (df_crsp ex_crsp ex_mflink1) (t_wficn ?t) (t_year ?t))"
    by blast
  then have s: "Some 150 = Some (december_tna (df_crsp ex_crsp ex_mflink1) 7 2000)" by simp
  have d: "december_tna (df_crsp ex_crsp ex_mflink1) 7 2000 = 100 + 50"
    by (simp add: ex_df_crsp december_tna_def december_tna_values_def)
  from t7 yes have n7: "length (filter (\<lambda>t. t_wficn t = 7 \<and> t_year t = 2000)
                (df_tna (df_crsp ex_crsp ex_mflink1))) = 1"
    by simp
  from t no have "(\<forall>t\<in>set (df_tna (df_crsp ex_crsp ex_mflink1)). \<not> (t_wficn t = 9 \<and> t_year t = 2000))
   \<and> (\<forall>j\<in>set (joined ex_crsp ex_mflink1 ex_s12 ex_mflink2). \<not> (wficn j = 9 \<and> year j = 2000))
   \<and> (\<forall>r\<in>set (universe ex_crsp ex_mflink1 ex_s12 ex_mflink2). \<not> (wficn r = 9 \<and> year r = 2000))"
    by blast
  then have absent: "filter (\<lambda>t. t_wficn t = 9 \<and> t_year t = 2000) (df_tna (df_crsp ex_crsp ex_mflink1)) = []
   \<and> filter (\<lambda>j. wficn j = 9 \<and> year j = 2000) (joined ex_crsp ex_mflink1 ex_s12 ex_mflink2) = []
   \<and> filter (\<lambda>r. wficn r = 9 \<and> year r = 2000) (universe ex_crsp ex_mflink1 ex_s12 ex_mflink2) = []"
    by (simp only: filter_empty_conv simp_thms)
  note u = year_end_tna_is_december_sum [of ex2_crsp ex2_mflink1 ex2_s12 ex2_mflink2 9 2001]
  have dec9: "12 \<in> months_available (df_crsp ex2_crsp ex2_mflink1) 9 2001"
    by (simp add: ex2_df_crsp months_available_def)
  have nov: "december_tna_values (df_crsp ex2_crsp ex2_mflink1) 9 2001 = []"
    by (simp add: ex2_df_crsp december_tna_values_def)
  have t9: "\<lparr>t_wficn = 9, t_year = 2001, t_crsp_tna = Some 0\<rparr>
        \<in> set (df_tna (df_crsp ex2_crsp ex2_mflink1))"
    by (simp add: ex2_df_tna)
  have j9: "ex2_fund9 \<in> set (joined ex2_crsp ex2_mflink1 ex2_s12 ex2_mflink2)"
    by (simp add: ex2_joined)
  have k9: "wficn ex2_fund9 = 9 \<and> year ex2_fund9 = 2001" by (simp add: ex2_fund9_def)
  from u nov j9 k9 have c9: "crsp_tna ex2_fund9 = Some 0" by blast
  from u nov have "\<forall>r\<in>set (universe ex2_crsp ex2_mflink1 ex2_s12 ex2_mflink2).
      \<not> (wficn r = 9 \<and> year r = 2001)"
    by blast
  then have u9: "filter (\<lambda>r. wficn r = 9 \<and> year r = 2001)
        (universe ex2_crsp ex2_mflink1 ex2_s12 ex2_mflink2) = []"
    by (simp only: filter_empty_conv)
  have "add_eq_ratios (add_tna_ratio ex2_fund7)
          \<in> set (universe ex2_crsp ex2_mflink1 ex2_s12 ex2_mflink2)"
    by (simp add: ex2_universe)
  with u have "crsp_tna (add_eq_ratios (add_tna_ratio ex2_fund7))
        = Some (december_tna (df_crsp ex2_crsp ex2_mflink1)
                  (wficn (add_eq_ratios (add_tna_ratio ex2_fund7)))
                  (year (add_eq_ratios (add_tna_ratio ex2_fund7))))"
    by blast
  then have u7: "crsp_tna (add_eq_ratios (add_tna_ratio ex2_fund7))
        = Some (december_tna (df_crsp ex2_crsp ex2_mflink1) 7 2001)"
    by (simp add: add_eq_ratios_simps add_tna_ratio_simps ex2_fund7_def)
  have q9: "\<lparr>q_wficn = 9, q_year = 2001, q_assets = Some 100, q_useq_tna_k = Some 900\<rparr>
        \<in> set (df_eq (df_s12 ex2_s12 ex2_mflink2))"
    by (simp add: ex2_df_eq)
  from u dec9 have "\<forall>q\<in>set (df_eq (df_s12 ex2_s12 ex2_mflink2)). q_wficn q = 9 \<and> q_year q = 2001 \<longrightarrow>
           (\<exists>j\<in>set (joined ex2_crsp ex2_mflink1 ex2_s12 ex2_mflink2). wficn j = 9 \<and> year j = 2001)"
    by blast
  with q9 have e9: "\<exists>j\<in>set (joined ex2_crsp ex2_mflink1 ex2_s12 ex2_mflink2).
      wficn j = 9 \<and> year j = 2001"
    by force
  from m s d yes n7 no absent dec9 nov t9 q9 e9 j9 c9 u9 u7 show ?thesis by blast
qed

text \<open>
  C9. No return is missing after the preparation cell, and the monthly mean of a fund is
  the sum of the returns of its linked share-class records, a missing return counted as
  0, divided by the number of all these records, those with a missing return included.
\<close>

theorem missing_return_counts_as_zero:
  "(\<forall>x\<in>set (df_crsp crsp mflink1). c_mret x \<noteq> None)
   \<and> (\<forall>g\<in>set (df_ret_monthly (df_crsp crsp mflink1)).
        share_class_rows crsp mflink1 (m_wficn g) (m_year g) (m_month g) \<noteq> [] \<and>
        m_mret g =
          Some (sum_list (map filled_return
                   (share_class_rows crsp mflink1 (m_wficn g) (m_year g) (m_month g)))
                / real (length (share_class_rows crsp mflink1 (m_wficn g) (m_year g) (m_month g)))))"
proof (intro conjI ballI)
  fix x assume "x \<in> set (df_crsp crsp mflink1)"
  then show "c_mret x \<noteq> None" by (rule df_crsp_mret_present)
next
  fix g assume g: "g \<in> set (df_ret_monthly (df_crsp crsp mflink1))"
  let ?df = "df_crsp crsp mflink1"
  let ?K = "\<lambda>p. (caldt (fst p), nan_last (snd p))"
  let ?P = "\<lambda>p. snd p = Some (m_wficn g) \<and> dt_year (caldt (fst p)) = m_year g
                 \<and> dt_month (caldt (fst p)) = m_month g"
  let ?raw = "filter ?P (merge_mflink1 crsp mflink1)"
  let ?rows = "share_class_rows crsp mflink1 (m_wficn g) (m_year g) (m_month g)"
  have rows: "?rows = map fst ?raw" by (simp add: share_class_rows_def)
  have grp: "map c_mret (filter (\<lambda>x. c_wficn x = m_wficn g \<and> c_year x = m_year g
                                     \<and> c_month x = m_month g) ?df)
             = map (\<lambda>p. Some (filled_return (fst p))) (sort_key ?K ?raw)"
    by (simp only: df_crsp_def group_of_prepared filter_sort)
  from df_ret_monthly_mret(2)[OF g]
  have "filter (\<lambda>x. c_wficn x = m_wficn g \<and> c_year x = m_year g \<and> c_month x = m_month g) ?df \<noteq> []"
    by (auto simp: filter_empty_conv)
  then have "map c_mret (filter (\<lambda>x. c_wficn x = m_wficn g \<and> c_year x = m_year g
                                     \<and> c_month x = m_month g) ?df) \<noteq> []"
    by simp
  then have "map (\<lambda>p. Some (filled_return (fst p))) (sort_key ?K ?raw) \<noteq> []"
    unfolding grp .
  then have sne: "sort_key ?K ?raw \<noteq> []" by simp
  then have "length (sort_key ?K ?raw) \<noteq> 0" by (simp only: length_0_conv not_False_eq_True)
  then have ne: "?raw \<noteq> []" by auto
  then show "?rows \<noteq> []" by (simp add: rows)
  have "m_mret g = mean (map (\<lambda>p. Some (filled_return (fst p))) (sort_key ?K ?raw))"
    by (simp only: df_ret_monthly_mret(1)[OF g] grp)
  also have "\<dots> = Some (sum_list (map (\<lambda>p. filled_return (fst p)) (sort_key ?K ?raw))
                        / real (length (sort_key ?K ?raw)))"
    using sne by (simp add: mean_def dropna_map_Some Let_def)
  also have "sum_list (map (\<lambda>p. filled_return (fst p)) (sort_key ?K ?raw))
             = sum_list (map (\<lambda>p. filled_return (fst p)) ?raw)"
    by (rule sum_list_sort_key)
  also have "\<dots> = sum_list (map filled_return ?rows)" by (simp add: rows comp_def)
  also have "length (sort_key ?K ?raw) = length ?rows" by (simp add: rows)
  finally show "m_mret g = Some (sum_list (map filled_return ?rows) / real (length ?rows))" .
qed

theorem missing_return_counts_as_zero_witness:
  "\<lparr>m_wficn = 7, m_year = 2000, m_month = 11, m_mret = Some (- 2 / 100)\<rparr>
      \<in> set (df_ret_monthly (df_crsp ex_crsp ex_mflink1))
   \<and> share_class_rows ex_crsp ex_mflink1 7 2000 11 =
       [\<lparr>crsp_fundno = 1, caldt = (2000, 11, 30), mret = Some (- 4 / 100), mtna = Some 95\<rparr>,
        \<lparr>crsp_fundno = 2, caldt = (2000, 11, 30), mret = None, mtna = None\<rparr>]
   \<and> Some (- 2 / 100) =
       Some (sum_list (map filled_return (share_class_rows ex_crsp ex_mflink1 7 2000 11))
             / real (length (share_class_rows ex_crsp ex_mflink1 7 2000 11)))
   \<and> (- 2 / 100 :: real) = (- 4 / 100 + 0) / 2"
proof -
  let ?g = "\<lparr>m_wficn = 7, m_year = 2000, m_month = 11, m_mret = Some (- 2 / 100)\<rparr>"
  have m: "?g \<in> set (df_ret_monthly (df_crsp ex_crsp ex_mflink1))"
    by (simp add: ex_df_ret_monthly)
  have rows: "share_class_rows ex_crsp ex_mflink1 7 2000 11 =
       [\<lparr>crsp_fundno = 1, caldt = (2000, 11, 30), mret = Some (- 4 / 100), mtna = Some 95\<rparr>,
        \<lparr>crsp_fundno = 2, caldt = (2000, 11, 30), mret = None, mtna = None\<rparr>]"
    by (simp add: share_class_rows_def merge_mflink1_def ex_crsp_def ex_mflink1_def
        dt_year_def dt_month_def)
  from missing_return_counts_as_zero [of ex_crsp ex_mflink1] m
  have "m_mret ?g =
          Some (sum_list (map filled_return
                   (share_class_rows ex_crsp ex_mflink1 (m_wficn ?g) (m_year ?g) (m_month ?g)))
                / real (length (share_class_rows ex_crsp ex_mflink1 (m_wficn ?g) (m_year ?g) (m_month ?g))))"
    by blast
  then have "Some (- 2 / 100) =
       Some (sum_list (map filled_return (share_class_rows ex_crsp ex_mflink1 7 2000 11))
             / real (length (share_class_rows ex_crsp ex_mflink1 7 2000 11)))"
    by simp
  with m rows show ?thesis by simp
qed

section \<open>Unmatched identifiers\<close>

text \<open>
  C6. A return record whose share-class id has no row in the static link table, and a
  holdings record that gets no fund-level id from the nearest-date match, is absent from
  everything downstream: deleting all such records from the inputs changes neither
  \<open>df_crsp\<close> nor \<open>df_s12\<close>, hence neither the joined table nor the final one (every later
  frame is computed from these two); every row kept in \<open>df_crsp\<close> matches a link row, every
  row kept in \<open>df_s12\<close> got its fund-level id from the match, and a report id with no
  link row at all gets none. The steps are total functions: nothing is raised or
  reported for a dropped record.
\<close>

theorem unmatched_records_absent:
  "df_crsp (filter (has_link mflink1) crsp) mflink1 = df_crsp crsp mflink1
   \<and> df_s12 (filter (\<lambda>h. fund_level_id mflink2 h \<noteq> None) s12) mflink2 = df_s12 s12 mflink2
   \<and> joined (filter (has_link mflink1) crsp) mflink1
            (filter (\<lambda>h. fund_level_id mflink2 h \<noteq> None) s12) mflink2
       = joined crsp mflink1 s12 mflink2
   \<and> universe (filter (has_link mflink1) crsp) mflink1
              (filter (\<lambda>h. fund_level_id mflink2 h \<noteq> None) s12) mflink2
       = universe crsp mflink1 s12 mflink2
   \<and> (\<forall>x\<in>set (df_crsp crsp mflink1).
        \<exists>l\<in>set mflink1. l1_crsp_fundno l = c_crsp_fundno x \<and> l1_wficn l = Some (c_wficn x))
   \<and> (\<forall>x\<in>set (df_s12 s12 mflink2).
        \<exists>h\<in>set s12. fund_level_id mflink2 h = Some (s_wficn x) \<and> fundno h = s_fundno x
                     \<and> fdate h = s_fdate x)
   \<and> ((\<forall>l\<in>set mflink2. l2_fundno l \<noteq> fundno h) \<longrightarrow> fund_level_id mflink2 h = None)"
proof (intro conjI ballI impI)
  show "df_crsp (filter (has_link mflink1) crsp) mflink1 = df_crsp crsp mflink1"
    by (rule df_crsp_matched)
  show "df_s12 (filter (\<lambda>h. fund_level_id mflink2 h \<noteq> None) s12) mflink2 = df_s12 s12 mflink2"
    by (rule df_s12_linked)
  show "joined (filter (has_link mflink1) crsp) mflink1
            (filter (\<lambda>h. fund_level_id mflink2 h \<noteq> None) s12) mflink2
       = joined crsp mflink1 s12 mflink2"
    by (simp only: joined_def df_crsp_matched df_s12_linked)
  show "universe (filter (has_link mflink1) crsp) mflink1
              (filter (\<lambda>h. fund_level_id mflink2 h \<noteq> None) s12) mflink2
       = universe crsp mflink1 s12 mflink2"
    by (simp only: universe_def joined_def df_crsp_matched df_s12_linked)
next
  fix x assume "x \<in> set (df_crsp crsp mflink1)"
  then show "\<exists>l\<in>set mflink1. l1_crsp_fundno l = c_crsp_fundno x \<and> l1_wficn l = Some (c_wficn x)"
    unfolding df_crsp_member by force
next
  fix x assume "x \<in> set (df_s12 s12 mflink2)"
  then show "\<exists>h\<in>set s12. fund_level_id mflink2 h = Some (s_wficn x) \<and> fundno h = s_fundno x
                     \<and> fdate h = s_fdate x"
    by (rule df_s12_member)
next
  assume "\<forall>l\<in>set mflink2. l2_fundno l \<noteq> fundno h"
  then show "fund_level_id mflink2 h = None" by (rule no_link_row_no_id)
qed

theorem unmatched_records_absent_witness:
  "\<not> has_link ex_mflink1
        \<lparr>crsp_fundno = 3, caldt = (2000, 12, 31), mret = Some (1 / 2), mtna = Some 1000\<rparr>
   \<and> list_all (\<lambda>l. l2_fundno l \<noteq>
        fundno \<lparr>fundno = 6, fdate = (2000, 12, 31), assets = Some 3000, useq_tna_k = Some 2000\<rparr>)
        ex_mflink2
   \<and> fund_level_id ex_mflink2
        \<lparr>fundno = 6, fdate = (2000, 12, 31), assets = Some 3000, useq_tna_k = Some 2000\<rparr> = None
   \<and> universe (filter (has_link ex_mflink1) ex_crsp) ex_mflink1
              (filter (\<lambda>h. fund_level_id ex_mflink2 h \<noteq> None) ex_s12) ex_mflink2
       = [ex_universe_row, ex_universe_row_na]
   \<and> filter (\<lambda>x. c_crsp_fundno x = 3) (df_crsp ex_crsp ex_mflink1) = []
   \<and> filter (\<lambda>x. s_fundno x = 6) (df_s12 ex_s12 ex_mflink2) = []"
proof -
  let ?h = "\<lparr>fundno = 6, fdate = (2000, 12, 31), assets = Some 3000, useq_tna_k = Some 2000\<rparr>"
  note t = unmatched_records_absent [of ex_mflink1 ex_crsp ex_mflink2 ex_s12 ?h]
  have nl: "\<not> has_link ex_mflink1
        \<lparr>crsp_fundno = 3, caldt = (2000, 12, 31), mret = Some (1 / 2), mtna = Some 1000\<rparr>"
    by (simp add: has_link_def ex_mflink1_def)
  have h: "\<forall>l\<in>set ex_mflink2. l2_fundno l \<noteq> fundno ?h" by (simp add: ex_mflink2_def)
  with t have none: "fund_level_id ex_mflink2 ?h = None" by blast
  from t have u: "universe (filter (has_link ex_mflink1) ex_crsp) ex_mflink1
              (filter (\<lambda>h. fund_level_id ex_mflink2 h \<noteq> None) ex_s12) ex_mflink2
       = [ex_universe_row, ex_universe_row_na]"
    by (simp only: ex_universe)
  have c: "\<forall>x\<in>set (df_crsp ex_crsp ex_mflink1). c_crsp_fundno x \<noteq> 3"
  proof
    fix x assume "x \<in> set (df_crsp ex_crsp ex_mflink1)"
    with t obtain l where "l \<in> set ex_mflink1" "l1_crsp_fundno l = c_crsp_fundno x" by blast
    then show "c_crsp_fundno x \<noteq> 3" by (auto simp: ex_mflink1_def)
  qed
  have s: "\<forall>x\<in>set (df_s12 ex_s12 ex_mflink2). s_fundno x \<noteq> 6"
  proof
    fix x assume "x \<in> set (df_s12 ex_s12 ex_mflink2)"
    with t obtain k where k: "k \<in> set ex_s12" "fund_level_id ex_mflink2 k = Some (s_wficn x)"
      "fundno k = s_fundno x" by blast
    show "s_fundno x \<noteq> 6"
    proof
      assume "s_fundno x = 6"
      with k have "\<forall>l\<in>set ex_mflink2. l2_fundno l \<noteq> fundno k" by (simp add: ex_mflink2_def)
      with unmatched_records_absent [of ex_mflink1 ex_crsp ex_mflink2 ex_s12 k]
      have "fund_level_id ex_mflink2 k = None" by blast
      with k show False by simp
    qed
  qed
  from h have h': "list_all (\<lambda>l. l2_fundno l \<noteq> fundno ?h) ex_mflink2"
    by (simp only: list_all_iff)
  from c have c': "filter (\<lambda>x. c_crsp_fundno x = 3) (df_crsp ex_crsp ex_mflink1) = []"
    by (simp only: filter_empty_conv)
  from s have s': "filter (\<lambda>x. s_fundno x = 6) (df_s12 ex_s12 ex_mflink2) = []"
    by (simp only: filter_empty_conv)
  from nl h' none u c' s' show ?thesis by blast
qed

end
